theory Spec2Isabelle
  imports Main "HOL-Library.Word"
begin

unbundle bit_operations_syntax

section \<open>The SMUSH player of engines/scumm/smush/smush_player.cpp\<close>

text \<open>
  A shallow embedding of \<^verbatim>\<open>SmushPlayer\<close>: the chunk cursor, the palette with its
  delta table and dirty range, the frame-object routing, the two audio feeds, the frame
  dispatcher, the top-level chunk reader and the play loop.  Every \<^verbatim>\<open>error()\<close> call
  and every failed \<^verbatim>\<open>assert\<close> of the source is a value \<open>Inl e\<close>; a function that
  returns normally gives \<open>Inr\<close> of the new state.
\<close>

subsection \<open>Machine types, errors\<close>

type_synonym byte = "8 word"
type_synonym int16 = "16 word"
type_synonym uint32 = "32 word"

datatype error =
  ErrorCall string      \<comment> \<open>\<^verbatim>\<open>error(...)\<close>: fatal, never returns\<close>
| AssertionFailed       \<comment> \<open>a failed \<^verbatim>\<open>assert\<close>\<close>
| TruncatedStream       \<comment> \<open>a read past the bytes of the stream\<close>
| DivisionByZero        \<comment> \<open>integer division by zero\<close>
| OutOfFuel             \<comment> \<open>not an error of the program: a loop of the model ran out of steps\<close>

definition bindE :: "error + 'a \<Rightarrow> ('a \<Rightarrow> error + 'b) \<Rightarrow> error + 'b" where
  "bindE m f = (case m of Inl e \<Rightarrow> Inl e | Inr x \<Rightarrow> f x)"

text \<open>C++ integer division truncates towards zero.\<close>

definition tdiv :: "int \<Rightarrow> int \<Rightarrow> int" where
  "tdiv a b = sgn a * sgn b * (\<bar>a\<bar> div \<bar>b\<bar>)"

text \<open>
  \<^verbatim>\<open>CLIP\<close> of common/util.h, which is not part of the excerpt: the value limited to
  the closed interval.
\<close>

definition CLIP :: "int \<Rightarrow> int \<Rightarrow> int \<Rightarrow> int" where
  "CLIP v amin amax = (if v < amin then amin else if v > amax then amax else v)"

text \<open>\<^verbatim>\<open>MKTAG(a0,a1,a2,a3)\<close> of common/endian.h: the four characters, big-endian.\<close>

definition MKTAG :: "char \<Rightarrow> char \<Rightarrow> char \<Rightarrow> char \<Rightarrow> uint32" where
  "MKTAG a0 a1 a2 a3 =
     word_of_nat (of_char a3 + of_char a2 * 256 + of_char a1 * 65536 + of_char a0 * 16777216)"

subsection \<open>The stream cursor\<close>

text \<open>
  Modelled from the spec: \<^verbatim>\<open>Common::SeekableReadStream\<close> is not under src/.  The
  Container Cursor of the spec is a sequential reader over a byte stream with a current
  position; a read for which bytes are missing fails with the truncated-stream error, and
  \<^verbatim>\<open>seek(offset, SEEK_SET)\<close> repositions the cursor at the offset.  So the end-of-file
  test of \<^verbatim>\<open>parseNextFrame\<close>, which comes after the eight bytes of a header are read, is
  reached in the model when those bytes exist.
\<close>

record stream =
  s_data :: "byte list"
  s_pos :: int

definition avail :: "stream \<Rightarrow> int \<Rightarrow> bool" where
  "avail b n = (0 \<le> n \<and> 0 \<le> s_pos b \<and> s_pos b + n \<le> int (length (s_data b)))"

definition byteAt :: "stream \<Rightarrow> int \<Rightarrow> byte" where
  "byteAt b off = s_data b ! nat (s_pos b + off)"

definition skip :: "int \<Rightarrow> stream \<Rightarrow> stream" where
  "skip n b = b\<lparr>s_pos := s_pos b + n\<rparr>"

definition seek :: "int \<Rightarrow> stream \<Rightarrow> stream" where
  "seek off b = b\<lparr>s_pos := off\<rparr>"

definition pos :: "stream \<Rightarrow> int" where
  "pos b = s_pos b"

definition readBytes :: "int \<Rightarrow> stream \<Rightarrow> error + (byte list \<times> stream)" where
  "readBytes n b =
     (if avail b n then Inr (take (nat n) (drop (nat (s_pos b)) (s_data b)), skip n b)
      else Inl TruncatedStream)"

definition readByte :: "stream \<Rightarrow> error + (int \<times> stream)" where
  "readByte b = (if avail b 1 then Inr (uint (byteAt b 0), skip 1 b) else Inl TruncatedStream)"

definition readSByte :: "stream \<Rightarrow> error + (int \<times> stream)" where
  "readSByte b = (if avail b 1 then Inr (sint (byteAt b 0), skip 1 b) else Inl TruncatedStream)"

definition le16 :: "byte \<Rightarrow> byte \<Rightarrow> int16" where
  "le16 b0 b1 = word_of_int (uint b0 + uint b1 * 256)"

definition readUint16LE :: "stream \<Rightarrow> error + (int \<times> stream)" where
  "readUint16LE b =
     (if avail b 2 then Inr (uint (le16 (byteAt b 0) (byteAt b 1)), skip 2 b)
      else Inl TruncatedStream)"

definition readSint16LE :: "stream \<Rightarrow> error + (int \<times> stream)" where
  "readSint16LE b =
     (if avail b 2 then Inr (sint (le16 (byteAt b 0) (byteAt b 1)), skip 2 b)
      else Inl TruncatedStream)"

definition be32 :: "byte \<Rightarrow> byte \<Rightarrow> byte \<Rightarrow> byte \<Rightarrow> uint32" where
  "be32 b0 b1 b2 b3 =
     word_of_int (uint b3 + uint b2 * 256 + uint b1 * 65536 + uint b0 * 16777216)"

definition readUint32BE :: "stream \<Rightarrow> error + (uint32 \<times> stream)" where
  "readUint32BE b =
     (if avail b 4
      then Inr (be32 (byteAt b 0) (byteAt b 1) (byteAt b 2) (byteAt b 3), skip 4 b)
      else Inl TruncatedStream)"

definition readUint32LE :: "stream \<Rightarrow> error + (uint32 \<times> stream)" where
  "readUint32LE b =
     (if avail b 4
      then Inr (be32 (byteAt b 3) (byteAt b 2) (byteAt b 1) (byteAt b 0), skip 4 b)
      else Inl TruncatedStream)"

subsection \<open>The player\<close>

datatype GameId = GID_FT | GID_DIG | GID_CMI | GID_OTHER

text \<open>The fields of \<^verbatim>\<open>ScummEngine_v7\<close> that the player reads and writes through \<^verbatim>\<open>_vm\<close>.\<close>

record ScummEngine =
  screenWidth :: int
  screenHeight :: int
  game_id :: GameId
  game_demo :: bool                 \<comment> \<open>\<^verbatim>\<open>_game.features & GF_DEMO\<close>\<close>
  platform_dos :: bool              \<comment> \<open>\<^verbatim>\<open>_game.platform == Common::kPlatformDOS\<close>\<close>
  smushVideoShouldFinish :: bool
  saveLoadFlag :: bool
  quit :: bool                      \<comment> \<open>what \<^verbatim>\<open>shouldQuit()\<close> answers\<close>

text \<open>Where \<^verbatim>\<open>_dst\<close> points: the pixels of the main virtual screen, or \<^verbatim>\<open>_specialBuffer\<close>.\<close>

datatype target = Primary | Special

text \<open>
  Modelled from the spec: \<^verbatim>\<open>SmushMixer\<close> and \<^verbatim>\<open>SaudChannel\<close> (smush_mixer.h,
  channel.h) are not under src/.  An audio channel holds, per track id, the last-seen
  block index, the expected total block count, flags, volume, pan and the pending-append
  buffer; the mixer is the table of channels and the inconsistencies logged so far.
\<close>

record channel =
  c_index :: int
  c_nbframes :: int
  c_flags :: int
  c_vol :: int
  c_pan :: int
  c_data :: "byte list"

record SmushMixer =
  channels :: "(int \<times> channel) list"
  mixer_log :: "string list"

text \<open>
  Modelled from the spec: the interleaved-audio engine \<^verbatim>\<open>IMuseDigital\<close> is not under
  src/.  The model keeps the calls that change it, in order, newest first.
\<close>

datatype imuse_call =
  FeedStream int "byte list" int bool
| StartStream int int int
| SwitchStream int int int int int
| SetParam int int int

record SmushPlayer =
  vm :: ScummEngine
  base :: "stream option"           \<comment> \<open>\<^verbatim>\<open>_base\<close>, the open file; \<open>None\<close> is the null pointer\<close>
  baseSize :: uint32
  strings :: "(int \<times> byte list) list option"   \<comment> \<open>\<^verbatim>\<open>_strings\<close>, the loaded string table\<close>
  nbframes :: int
  frame :: int
  startFrame :: int
  speed :: int
  startTime :: uint32
  seekFile :: string
  seekPos :: int
  seekFrame :: int
  pal :: "byte list"                \<comment> \<open>\<^verbatim>\<open>byte _pal[0x300]\<close>\<close>
  deltaPal :: "int16 list"          \<comment> \<open>\<^verbatim>\<open>int16 _deltaPal[0x300]\<close>\<close>
  palDirtyMin :: int
  palDirtyMax :: int
  width :: int
  height :: int
  dst :: target
  screenPixels :: "byte list"
  specialBuffer :: "byte list option"
  frameBuffer :: "byte list option"
  skipNext :: bool
  storeFrame :: bool
  compressedFileMode :: bool
  insanity :: bool
  middleAudio :: bool
  skipPalette :: bool
  updateNeeded :: bool
  warpNeeded :: bool
  endOfFile :: bool
  paused :: bool
  pauseStartTime :: uint32
  pauseTime :: uint32
  iactTable :: "int list"           \<comment> \<open>\<^verbatim>\<open>int _iactTable[4]\<close>\<close>
  smixer :: SmushMixer
  imuse :: "imuse_call list"

subsection \<open>Pause and resume\<close>

text \<open>\<^verbatim>\<open>now\<close> is what \<^verbatim>\<open>_vm->_system->getMillis()\<close> answers at the call.\<close>

definition pause :: "uint32 \<Rightarrow> SmushPlayer \<Rightarrow> SmushPlayer" where
  "pause now s =
     (if \<not> paused s then s\<lparr>paused := True, pauseStartTime := now\<rparr> else s)"

definition unpause :: "uint32 \<Rightarrow> SmushPlayer \<Rightarrow> SmushPlayer" where
  "unpause now s =
     (if paused s
      then s\<lparr>paused := False, pauseTime := pauseTime s + (now - pauseStartTime s),
             pauseStartTime := 0\<rparr>
      else s)"

subsection \<open>Palette, delta table and dirty range\<close>

definition setDirtyColors :: "int \<Rightarrow> int \<Rightarrow> SmushPlayer \<Rightarrow> SmushPlayer" where
  "setDirtyColors mn mx s =
     (let s1 = (if palDirtyMin s > mn then s\<lparr>palDirtyMin := mn\<rparr> else s)
      in if palDirtyMax s1 < mx then s1\<lparr>palDirtyMax := mx\<rparr> else s1)"

definition readPalette :: "stream \<Rightarrow> error + (byte list \<times> stream)" where
  "readPalette b = readBytes 0x300 b"

definition delta_color :: "byte \<Rightarrow> int16 \<Rightarrow> byte" where
  "delta_color org_color dc =
     (let t = tdiv (uint org_color * 129 + sint dc) 128 in word_of_int (CLIP t 0 255))"

text \<open>The loop \<^verbatim>\<open>for (i = 0; i < 0x300; i++) _deltaPal[i] = b.readUint16LE()\<close>;
  the first argument counts the iterations left.\<close>

fun readDeltaPal :: "nat \<Rightarrow> nat \<Rightarrow> stream \<Rightarrow> int16 list \<Rightarrow> error + (int16 list \<times> stream)" where
  "readDeltaPal 0 i b dp = Inr (dp, b)"
| "readDeltaPal (Suc n) i b dp =
     bindE (readUint16LE b) (\<lambda>(v, b'). readDeltaPal n (Suc i) b' (dp[i := word_of_int v]))"

text \<open>The loop \<^verbatim>\<open>for (i = 0; i < 0x300; i++) _pal[i] = delta_color(_pal[i], _deltaPal[i])\<close>.\<close>

definition applyDeltaPal :: "byte list \<Rightarrow> int16 list \<Rightarrow> byte list" where
  "applyDeltaPal p dp = fold (\<lambda>i q. q[i := delta_color (q ! i) (dp ! i)]) [0..<0x300] p"

definition handleDeltaPalette ::
  "int \<Rightarrow> stream \<Rightarrow> SmushPlayer \<Rightarrow> error + (stream \<times> SmushPlayer)" where
  "handleDeltaPalette subSize b s =
     (if subSize = 0x300 * 3 + 4 then
        bindE (readUint16LE b) (\<lambda>(_, b1).
        bindE (readUint16LE b1) (\<lambda>(_, b2).
        bindE (readDeltaPal 0x300 0 b2 (deltaPal s)) (\<lambda>(dp, b3).
        bindE (readPalette b3) (\<lambda>(p, b4).
        Inr (b4, setDirtyColors 0 255 (s\<lparr>deltaPal := dp, pal := p\<rparr>))))))
      else if subSize = 6 then
        bindE (readUint16LE b) (\<lambda>(_, b1).
        bindE (readUint16LE b1) (\<lambda>(_, b2).
        bindE (readUint16LE b2) (\<lambda>(_, b3).
        Inr (b3, setDirtyColors 0 255 (s\<lparr>pal := applyDeltaPal (pal s) (deltaPal s)\<rparr>)))))
      else Inl (ErrorCall ''SmushPlayer::handleDeltaPalette() Wrong size for DeltaPalette''))"

definition handleNewPalette ::
  "int \<Rightarrow> stream \<Rightarrow> SmushPlayer \<Rightarrow> error + (stream \<times> SmushPlayer)" where
  "handleNewPalette subSize b s =
     (if \<not> subSize \<ge> 0x300 then Inl AssertionFailed
      else if skipPalette s then Inr (b, s)
      else bindE (readPalette b) (\<lambda>(p, b1). Inr (b1, setDirtyColors 0 255 (s\<lparr>pal := p\<rparr>))))"

subsection \<open>External collaborators\<close>

text \<open>
  The codecs, zlib, the overlay subsystem (\<^verbatim>\<open>Insane\<close>), the glyph renderer, the file
  system and the queries of the interleaved-audio engine are outside the excerpt.  They
  are parameters of the model.  The overlay subsystem and the host's input processing get
  the whole player, since the source hands them \<^verbatim>\<open>this\<close>; the codecs and the glyph
  renderer get the pixels of \<^verbatim>\<open>_dst\<close> only.  The constants of dimuse_defs.h are
  parameters as well.
\<close>

record env =
  decode_codec :: "int \<Rightarrow> byte list \<Rightarrow> int \<Rightarrow> int \<Rightarrow> int \<Rightarrow> int \<Rightarrow> byte list \<Rightarrow> byte list"
    \<comment> \<open>codec id, source, left, top, width, height, pixels of the target\<close>
  uncompress :: "byte list \<Rightarrow> nat \<Rightarrow> byte list option"
  procPreRendering :: "SmushPlayer \<Rightarrow> error + SmushPlayer"
  procPostRendering :: "SmushPlayer \<Rightarrow> error + SmushPlayer"
  procIACT :: "int \<Rightarrow> int \<Rightarrow> int \<Rightarrow> int \<Rightarrow> stream \<Rightarrow> SmushPlayer \<Rightarrow> error + (stream \<times> SmushPlayer)"
  procSKIP :: "int \<Rightarrow> stream \<Rightarrow> SmushPlayer \<Rightarrow> error + (stream \<times> SmushPlayer)"
  drawText :: "byte list \<Rightarrow> int list \<Rightarrow> int \<Rightarrow> int \<Rightarrow> byte list \<Rightarrow> error + byte list"
    \<comment> \<open>string, the seven header fields, \<^verbatim>\<open>_width\<close>, \<^verbatim>\<open>_height\<close>, pixels of the target\<close>
  subtitles :: bool
  mixerHandleFrame :: "SmushMixer \<Rightarrow> SmushMixer"
  openFile :: "string \<Rightarrow> byte list option"
  loadStrings :: "string \<Rightarrow> (int \<times> byte list) list option"
  use_zlib :: bool                  \<comment> \<open>the build options \<^verbatim>\<open>USE_ZLIB\<close>, \<^verbatim>\<open>USE_VORBIS\<close>, \<^verbatim>\<open>USE_MAD\<close>\<close>
  use_vorbis :: bool
  use_mad :: bool
  processInput :: "SmushPlayer \<Rightarrow> SmushPlayer"
  diMUSEGetParam :: "imuse_call list \<Rightarrow> int \<Rightarrow> int \<Rightarrow> int"
  findStreamSound :: "imuse_call list \<Rightarrow> int \<Rightarrow> int"
  startStreamFails :: "imuse_call list \<Rightarrow> int \<Rightarrow> bool"
  DIMUSE_BUFFER_SPEECH :: int
  DIMUSE_BUFFER_MUSIC :: int
  DIMUSE_BUFFER_SMUSH :: int
  DIMUSE_SMUSH_SOUNDID :: int
  DIMUSE_P_SND_TRACK_NUM :: int
  DIMUSE_P_VOLUME :: int
  DIMUSE_P_GROUP :: int
  DIMUSE_GROUP_SPEECH :: int
  DIMUSE_GROUP_MUSIC :: int
  DIMUSE_GROUP_SFX :: int

subsection \<open>Frame buffers\<close>

text \<open>The bytes \<^verbatim>\<open>_dst\<close> points at.  \<^verbatim>\<open>malloc\<close> gives memory of unspecified content,
  modelled as zero bytes.\<close>

definition getDst :: "SmushPlayer \<Rightarrow> byte list" where
  "getDst s = (case dst s of Primary \<Rightarrow> screenPixels s
               | Special \<Rightarrow> (case specialBuffer s of Some p \<Rightarrow> p | None \<Rightarrow> []))"

definition setDst :: "byte list \<Rightarrow> SmushPlayer \<Rightarrow> SmushPlayer" where
  "setDst p s = (case dst s of Primary \<Rightarrow> s\<lparr>screenPixels := p\<rparr>
                 | Special \<Rightarrow> s\<lparr>specialBuffer := Some p\<rparr>)"

definition memcpy :: "byte list \<Rightarrow> byte list \<Rightarrow> int \<Rightarrow> byte list" where
  "memcpy d src n = take (nat n) src @ drop (nat n) d"

definition handleStore :: "int \<Rightarrow> stream \<Rightarrow> SmushPlayer \<Rightarrow> error + (stream \<times> SmushPlayer)" where
  "handleStore subSize b s =
     (if \<not> subSize \<ge> 4 then Inl AssertionFailed else Inr (b, s\<lparr>storeFrame := True\<rparr>))"

definition handleFetch :: "int \<Rightarrow> stream \<Rightarrow> SmushPlayer \<Rightarrow> error + (stream \<times> SmushPlayer)" where
  "handleFetch subSize b s =
     (if \<not> subSize \<ge> 6 then Inl AssertionFailed
      else case frameBuffer s of
             Some fb \<Rightarrow> Inr (b, setDst (memcpy (getDst s) fb (width s * height s)) s)
           | None \<Rightarrow> Inr (b, s))"

subsection \<open>Frame objects\<close>

definition storeFrameStep :: "SmushPlayer \<Rightarrow> SmushPlayer" where
  "storeFrameStep s =
     (if storeFrame s then
        (let n = width s * height s;
             fb = (case frameBuffer s of None \<Rightarrow> replicate (nat n) 0 | Some f \<Rightarrow> f)
         in s\<lparr>frameBuffer := Some (memcpy fb (getDst s) n), storeFrame := False\<rparr>)
      else s)"

text \<open>What \<^verbatim>\<open>decodeFrameObject\<close> does once the frame is accepted: it sets the current
  dimensions, runs the codec on \<^verbatim>\<open>_dst\<close> and serves a pending store request.  The
  decoder objects \<^verbatim>\<open>_codec37\<close> and \<^verbatim>\<open>_codec47\<close> keep state of their own, which is
  not part of the model.\<close>

definition decodeInto ::
  "env \<Rightarrow> int \<Rightarrow> byte list \<Rightarrow> int \<Rightarrow> int \<Rightarrow> int \<Rightarrow> int \<Rightarrow> SmushPlayer \<Rightarrow> error + SmushPlayer" where
  "decodeInto e codec src left top' w h s =
     (let s1 = (if h = 242 \<and> w = 384
                then s\<lparr>width := w, height := h\<rparr>
                else s\<lparr>width := screenWidth (vm s), height := screenHeight (vm s)\<rparr>)
      in if codec = 1 \<or> codec = 3 \<or> codec = 37 \<or> codec = 47 \<or> codec = 20
         then Inr (storeFrameStep
                    (setDst (decode_codec e codec src left top' w h (getDst s1)) s1))
         else Inl (ErrorCall ''Invalid codec for frame object''))"

definition decodeFrameObject ::
  "env \<Rightarrow> int \<Rightarrow> byte list \<Rightarrow> int \<Rightarrow> int \<Rightarrow> int \<Rightarrow> int \<Rightarrow> SmushPlayer \<Rightarrow> error + SmushPlayer" where
  "decodeFrameObject e codec src left top' w h s =
     (if h = 242 \<and> w = 384 then
        decodeInto e codec src left top' w h
          ((if specialBuffer s = None
            then s\<lparr>specialBuffer := Some (replicate (242 * 384) 0)\<rparr> else s)\<lparr>dst := Special\<rparr>)
      else if h > screenHeight (vm s) \<or> w > screenWidth (vm s) then Inr s
      else if \<not> insanity s \<and> (h \<noteq> screenHeight (vm s) \<or> w \<noteq> screenWidth (vm s)) then Inr s
      else decodeInto e codec src left top' w h s)"

definition handleFrameObject ::
  "env \<Rightarrow> int \<Rightarrow> stream \<Rightarrow> SmushPlayer \<Rightarrow> error + (stream \<times> SmushPlayer)" where
  "handleFrameObject e subSize b s =
     (if \<not> subSize \<ge> 14 then Inl AssertionFailed
      else if skipNext s then Inr (b, s\<lparr>skipNext := False\<rparr>)
      else
        bindE (readUint16LE b) (\<lambda>(codec, b1).
        bindE (readUint16LE b1) (\<lambda>(left, b2).
        bindE (readUint16LE b2) (\<lambda>(top', b3).
        bindE (readUint16LE b3) (\<lambda>(w, b4).
        bindE (readUint16LE b4) (\<lambda>(h, b5).
        bindE (readUint16LE b5) (\<lambda>(_, b6).
        bindE (readUint16LE b6) (\<lambda>(_, b7).
        bindE (readBytes (subSize - 14) b7) (\<lambda>(chunk_buffer, b8).
        bindE (decodeFrameObject e codec chunk_buffer left top' w h s) (\<lambda>s'.
        Inr (b8, s')))))))))))"

definition READ_LE_UINT16 :: "byte list \<Rightarrow> nat \<Rightarrow> int" where
  "READ_LE_UINT16 buf i = uint (le16 (buf ! i) (buf ! (i + 1)))"

definition READ_BE_UINT32 :: "byte list \<Rightarrow> uint32" where
  "READ_BE_UINT32 buf = be32 (buf ! 0) (buf ! 1) (buf ! 2) (buf ! 3)"

text \<open>Reading the length prefix or the ten header bytes out of a buffer that is too short
  is outside the buffer; the model stops there with the truncation error.\<close>

definition handleZlibFrameObject ::
  "env \<Rightarrow> int \<Rightarrow> stream \<Rightarrow> SmushPlayer \<Rightarrow> error + (stream \<times> SmushPlayer)" where
  "handleZlibFrameObject e subSize b s =
     (if skipNext s then Inr (b, s\<lparr>skipNext := False\<rparr>)
      else
        bindE (readBytes subSize b) (\<lambda>(chunkBuffer, b1).
        if length chunkBuffer < 4 then Inl TruncatedStream
        else case uncompress e (drop 4 chunkBuffer) (unat (READ_BE_UINT32 chunkBuffer)) of
          None \<Rightarrow> Inl (ErrorCall ''SmushPlayer::handleZlibFrameObject() Zlib uncompress error'')
        | Some fobjBuffer \<Rightarrow>
            if length fobjBuffer < 10 then Inl TruncatedStream
            else
              bindE (decodeFrameObject e (READ_LE_UINT16 fobjBuffer 0) (drop 14 fobjBuffer)
                       (READ_LE_UINT16 fobjBuffer 2) (READ_LE_UINT16 fobjBuffer 4)
                       (READ_LE_UINT16 fobjBuffer 6) (READ_LE_UINT16 fobjBuffer 8) s) (\<lambda>s'.
              Inr (b1, s'))))"

subsection \<open>The generic audio feed\<close>

text \<open>
  Modelled from the spec: the operations of \<^verbatim>\<open>SaudChannel\<close> and \<^verbatim>\<open>SmushMixer\<close>, not
  under src/.  A new channel has seen no block.  \<^verbatim>\<open>setParameters\<close> sets total blocks,
  flags, volume, pan and the index unconditionally.  \<^verbatim>\<open>checkParameters\<close> validates
  that the index is the immediate successor of the channel's last index; a mismatch is
  logged, and the call returns.  \<^verbatim>\<open>appendData\<close> appends the payload bytes read from the
  stream to the channel's buffer.  \<^verbatim>\<open>stop\<close> drops every channel.
\<close>

definition SaudChannel :: channel where
  "SaudChannel = \<lparr>c_index = 0, c_nbframes = 0, c_flags = 0, c_vol = 0, c_pan = 0, c_data = []\<rparr>"

definition findChannel :: "SmushMixer \<Rightarrow> int \<Rightarrow> channel option" where
  "findChannel m track_id = map_of (channels m) track_id"

definition putChannel :: "int \<Rightarrow> channel \<Rightarrow> SmushMixer \<Rightarrow> SmushMixer" where
  "putChannel track_id c m =
     m\<lparr>channels := (track_id, c) # filter (\<lambda>kc. fst kc \<noteq> track_id) (channels m)\<rparr>"

definition setParameters :: "int \<Rightarrow> int \<Rightarrow> int \<Rightarrow> int \<Rightarrow> int \<Rightarrow> channel \<Rightarrow> channel" where
  "setParameters nb flags vol pan' index c =
     c\<lparr>c_nbframes := nb, c_flags := flags, c_vol := vol, c_pan := pan', c_index := index\<rparr>"

definition checkParameters ::
  "int \<Rightarrow> int \<Rightarrow> int \<Rightarrow> int \<Rightarrow> int \<Rightarrow> channel \<Rightarrow> channel \<times> string list" where
  "checkParameters index nb flags vol pan' c =
     (c\<lparr>c_index := index\<rparr>,
      if index \<noteq> c_index c + 1 then [''invalid index in SaudChannel::checkParameters()''] else [])"

definition appendData :: "stream \<Rightarrow> int \<Rightarrow> channel \<Rightarrow> error + (stream \<times> channel)" where
  "appendData b size' c =
     bindE (readBytes size' b) (\<lambda>(d, b1). Inr (b1, c\<lparr>c_data := c_data c @ d\<rparr>))"

definition mixerStop :: "SmushMixer \<Rightarrow> SmushMixer" where
  "mixerStop m = m\<lparr>channels := []\<rparr>"

definition handleSoundBuffer ::
  "int \<Rightarrow> int \<Rightarrow> int \<Rightarrow> int \<Rightarrow> int \<Rightarrow> int \<Rightarrow> stream \<Rightarrow> int \<Rightarrow> SmushPlayer
     \<Rightarrow> error + (stream \<times> SmushPlayer)" where
  "handleSoundBuffer track_id index max_frames flags vol pan' b size' s =
     (let c = (case findChannel (smixer s) track_id of None \<Rightarrow> SaudChannel | Some c \<Rightarrow> c);
          (c1, msgs) = (if middleAudio s \<or> index = 0
                        then (setParameters max_frames flags vol pan' index c, [])
                        else checkParameters index max_frames flags vol pan' c)
      in bindE (appendData b size' c1) (\<lambda>(b1, c2).
         Inr (b1, s\<lparr>middleAudio := False,
                    smixer := (putChannel track_id c2 (smixer s))
                                \<lparr>mixer_log := mixer_log (smixer s) @ msgs\<rparr>\<rparr>)))"

definition handleSoundFrame ::
  "int \<Rightarrow> stream \<Rightarrow> SmushPlayer \<Rightarrow> error + (stream \<times> SmushPlayer)" where
  "handleSoundFrame subSize b s =
     bindE (readUint16LE b) (\<lambda>(track_id, b1).
     bindE (readUint16LE b1) (\<lambda>(index, b2).
     bindE (readUint16LE b2) (\<lambda>(max_frames, b3).
     bindE (readUint16LE b3) (\<lambda>(flags, b4).
     bindE (readByte b4) (\<lambda>(vol, b5).
     bindE (readSByte b5) (\<lambda>(pan', b6).
     handleSoundBuffer track_id index max_frames flags vol pan' b6 (subSize - 10) s))))))"

subsection \<open>The interleaved audio feed\<close>

definition iactBuf :: "env \<Rightarrow> int \<Rightarrow> error + (int \<times> int)" where
  "iactBuf e userId =
     (if userId = 1 then Inr (1, 127)
      else if userId = 2 then Inr (2, 127)
      else if userId = 3 then Inr (3, 127)
      else if userId \<ge> 100 \<and> userId \<le> 163 then Inr (DIMUSE_BUFFER_SPEECH e, 2 * userId - 200)
      else if userId \<ge> 200 \<and> userId \<le> 263 then Inr (DIMUSE_BUFFER_MUSIC e, 2 * userId - 400)
      else if userId \<ge> 300 \<and> userId \<le> 363 then Inr (DIMUSE_BUFFER_SMUSH e, 2 * userId - 600)
      else Inl (ErrorCall ''SmushPlayer::handleIACT(): ERROR: got invalid userID''))"

text \<open>The branch of \<^verbatim>\<open>handleIACT\<close> for The Dig.  The search for a running sound with a
  stream on the buffer (the \<^verbatim>\<open>do ... while\<close> over \<^verbatim>\<open>diMUSEGetNextSound\<close>) happens inside
  the audio engine and is the parameter \<open>findStreamSound\<close>.\<close>

definition handleIACT_DIG ::
  "env \<Rightarrow> int \<Rightarrow> int \<Rightarrow> int \<Rightarrow> int \<Rightarrow> stream \<Rightarrow> SmushPlayer \<Rightarrow> error + (stream \<times> SmushPlayer)" where
  "handleIACT_DIG e subSize userId index nbframes' b s =
     bindE (readBytes (subSize - 18) b) (\<lambda>(dataBuffer, b1).
     bindE (iactBuf e userId) (\<lambda>(bufId, volume).
     let paused' = (nbframes' - index = 1) in
     if index \<noteq> 0 \<and> iactTable s ! nat bufId - index \<noteq> -1 then Inr (b1, s)
     else
       let s1 = s\<lparr>iactTable := (iactTable s)[nat bufId := index]\<rparr>;
           sid = bufId + DIMUSE_SMUSH_SOUNDID e
       in
       if index \<noteq> 0 then
         (if diMUSEGetParam e (imuse s1) sid (DIMUSE_P_SND_TRACK_NUM e) \<noteq> 0
          then Inr (b1, s1\<lparr>imuse := FeedStream sid dataBuffer (subSize - 18) paused' # imuse s1\<rparr>)
          else Inl (ErrorCall ''SmushPlayer::handleIACT(): ERROR: got unexpected non-zero IACT block''))
       else if length dataBuffer < 4 then Inl TruncatedStream
       else if READ_BE_UINT32 dataBuffer \<noteq> MKTAG CHR ''i'' CHR ''M'' CHR ''U'' CHR ''S''
       then Inl (ErrorCall ''SmushPlayer::handleIACT(): ERROR: got non-IMUS IACT block'')
       else
         let curSoundId = findStreamSound e (imuse s1) bufId in
         if curSoundId = 0 \<and> startStreamFails e (imuse s1) sid
         then Inl (ErrorCall ''SmushPlayer::handleIACT(): ERROR: could not start stream'')
         else
           let c1 = (if curSoundId = 0 then StartStream sid 126 bufId
                     else SwitchStream curSoundId sid (if bufId = 2 then 1000 else 150) 0 0);
               c2 = SetParam sid (DIMUSE_P_VOLUME e) volume;
               c3 = SetParam sid (DIMUSE_P_GROUP e)
                      (if bufId = DIMUSE_BUFFER_SPEECH e then DIMUSE_GROUP_SPEECH e
                       else if bufId = DIMUSE_BUFFER_MUSIC e then DIMUSE_GROUP_MUSIC e
                       else DIMUSE_GROUP_SFX e);
               c4 = FeedStream sid dataBuffer (subSize - 18) paused'
           in Inr (b1, s1\<lparr>imuse := c4 # c3 # c2 # c1 # imuse s1\<rparr>)))"

text \<open>In the branch for The Curse of Monkey Island the block is read and decompressed into
  the queued audio stream; the fields that loop works on (\<^verbatim>\<open>_IACToutput\<close>,
  \<^verbatim>\<open>_IACTpos\<close>, \<^verbatim>\<open>_IACTstream\<close>) are not part of the model.\<close>

definition handleIACT ::
  "env \<Rightarrow> int \<Rightarrow> stream \<Rightarrow> SmushPlayer \<Rightarrow> error + (stream \<times> SmushPlayer)" where
  "handleIACT e subSize b s =
     (if \<not> subSize \<ge> 8 then Inl AssertionFailed
      else
        bindE (readUint16LE b) (\<lambda>(code, b1).
        bindE (readUint16LE b1) (\<lambda>(flags, b2).
        bindE (readSint16LE b2) (\<lambda>(unknown, b3).
        bindE (readUint16LE b3) (\<lambda>(userId, b4).
        if code \<noteq> 8 \<and> flags \<noteq> 46 then procIACT e code flags unknown userId b4 s
        else if compressedFileMode s then Inr (b4, s)
        else if \<not> (flags = 46 \<and> unknown = 0) then Inl AssertionFailed
        else
          bindE (readUint16LE b4) (\<lambda>(_, b5).
          bindE (readUint16LE b5) (\<lambda>(index, b6).
          bindE (readUint16LE b6) (\<lambda>(nbframes', b7).
          bindE (readUint32LE b7) (\<lambda>(_, b8).
          if game_id (vm s) = GID_CMI then
            bindE (readBytes (subSize - 18) b8) (\<lambda>(_, b9). Inr (b9, s))
          else if game_id (vm s) = GID_DIG \<and> \<not> game_demo (vm s) then
            handleIACT_DIG e subSize userId index nbframes' b8 s
          else Inr (b8, s))))))))))"

subsection \<open>Text\<close>

definition bytes_of :: "string \<Rightarrow> byte list" where
  "bytes_of str = map (\<lambda>c. word_of_nat (of_char c)) str"

definition StringResource_get :: "(int \<times> byte list) list \<Rightarrow> int \<Rightarrow> byte list" where
  "StringResource_get tbl i =
     (case map_of tbl i of Some str \<Rightarrow> str | None \<Rightarrow> bytes_of ''unknown string'')"

text \<open>\<^verbatim>\<open>handleTextResource\<close> reads the header and finds the string; what follows (escape
  codes, font choice, clip rectangle, the glyph renderer) writes pixels of \<^verbatim>\<open>_dst\<close>
  only or ends in \<^verbatim>\<open>error\<close>, and is the parameter \<open>drawText\<close>.\<close>

definition handleTextResource ::
  "env \<Rightarrow> uint32 \<Rightarrow> int \<Rightarrow> stream \<Rightarrow> SmushPlayer \<Rightarrow> error + (stream \<times> SmushPlayer)" where
  "handleTextResource e subType subSize b s =
     bindE (readSint16LE b) (\<lambda>(pos_x, b1).
     bindE (readSint16LE b1) (\<lambda>(pos_y, b2).
     bindE (readSint16LE b2) (\<lambda>(flags, b3).
     bindE (readSint16LE b3) (\<lambda>(left, b4).
     bindE (readSint16LE b4) (\<lambda>(top', b5).
     bindE (readSint16LE b5) (\<lambda>(w, b6).
     bindE (readSint16LE b6) (\<lambda>(h, b7).
     bindE (readUint16LE b7) (\<lambda>(_, b8).
     let render = (\<lambda>str b'.
           if \<not> subtitles e \<and> bit flags 3 then Inr (b', s)
           else bindE (drawText e str [pos_x, pos_y, flags, left, top', w, h]
                         (width s) (height s) (getDst s)) (\<lambda>p. Inr (b', setDst p s)))
     in
     if subType = MKTAG CHR ''T'' CHR ''E'' CHR ''X'' CHR ''T'' then
       bindE (readBytes (subSize - 16) b8) (\<lambda>(str, b9). render str b9)
     else
       bindE (readUint16LE b8) (\<lambda>(string_id, b9).
       case strings s of None \<Rightarrow> Inr (b9, s)
       | Some tbl \<Rightarrow> render (StringResource_get tbl string_id) b9)))))))))"

subsection \<open>The frame dispatcher\<close>

definition updateScreen :: "SmushPlayer \<Rightarrow> SmushPlayer" where
  "updateScreen s = s\<lparr>updateNeeded := True\<rparr>"

definition dispatchSubChunk ::
  "env \<Rightarrow> uint32 \<Rightarrow> int \<Rightarrow> stream \<Rightarrow> SmushPlayer \<Rightarrow> error + (stream \<times> SmushPlayer)" where
  "dispatchSubChunk e subType subSize b s =
     (if subType = MKTAG CHR ''N'' CHR ''P'' CHR ''A'' CHR ''L'' then handleNewPalette subSize b s
      else if subType = MKTAG CHR ''F'' CHR ''O'' CHR ''B'' CHR ''J'' then handleFrameObject e subSize b s
      else if use_zlib e \<and> subType = MKTAG CHR ''Z'' CHR ''F'' CHR ''O'' CHR ''B''
        then handleZlibFrameObject e subSize b s
      else if subType = MKTAG CHR ''P'' CHR ''S'' CHR ''A'' CHR ''D''
        then (if \<not> compressedFileMode s then handleSoundFrame subSize b s else Inr (b, s))
      else if subType = MKTAG CHR ''T'' CHR ''R'' CHR ''E'' CHR ''S''
        then handleTextResource e subType subSize b s
      else if subType = MKTAG CHR ''X'' CHR ''P'' CHR ''A'' CHR ''L'' then handleDeltaPalette subSize b s
      else if subType = MKTAG CHR ''I'' CHR ''A'' CHR ''C'' CHR ''T'' then handleIACT e subSize b s
      else if subType = MKTAG CHR ''S'' CHR ''T'' CHR ''O'' CHR ''R'' then handleStore subSize b s
      else if subType = MKTAG CHR ''F'' CHR ''T'' CHR ''C'' CHR ''H'' then handleFetch subSize b s
      else if subType = MKTAG CHR ''S'' CHR ''K'' CHR ''I'' CHR ''P'' then procSKIP e subSize b s
      else if subType = MKTAG CHR ''T'' CHR ''E'' CHR ''X'' CHR ''T''
        then handleTextResource e subType subSize b s
      else Inl (ErrorCall ''Unknown frame subChunk found''))"

text \<open>One turn of the \<^verbatim>\<open>while (frameSize > 0)\<close> loop of \<^verbatim>\<open>handleFrame\<close>: the header,
  the handler, the repositioning of the cursor.  It returns the new \<^verbatim>\<open>frameSize\<close>.\<close>

definition handleSubChunk ::
  "env \<Rightarrow> int \<Rightarrow> stream \<Rightarrow> SmushPlayer \<Rightarrow> error + (int \<times> stream \<times> SmushPlayer)" where
  "handleSubChunk e frameSize b s =
     bindE (readUint32BE b) (\<lambda>(subType, b1).
     bindE (readUint32BE b1) (\<lambda>(sz, b2).
     let subSize = sint sz; subOffset = pos b2 in
     bindE (dispatchSubChunk e subType subSize b2 s) (\<lambda>(b3, s').
     let frameSize1 = frameSize - (subSize + 8);
         b4 = seek (subOffset + subSize) b3
     in if subSize AND 1 \<noteq> 0 then Inr (frameSize1 - 1, skip 1 b4, s')
        else Inr (frameSize1, b4, s'))))"

text \<open>The loop may not end (a sub-chunk can declare a negative size), so it takes fuel.\<close>

fun handleFrameLoop ::
  "env \<Rightarrow> nat \<Rightarrow> int \<Rightarrow> stream \<Rightarrow> SmushPlayer \<Rightarrow> error + (stream \<times> SmushPlayer)" where
  "handleFrameLoop e 0 frameSize b s = (if frameSize > 0 then Inl OutOfFuel else Inr (b, s))"
| "handleFrameLoop e (Suc n) frameSize b s =
     (if frameSize > 0
      then bindE (handleSubChunk e frameSize b s) (\<lambda>(frameSize', b', s').
             handleFrameLoop e n frameSize' b' s')
      else Inr (b, s))"

definition handleFrame ::
  "env \<Rightarrow> nat \<Rightarrow> int \<Rightarrow> stream \<Rightarrow> SmushPlayer \<Rightarrow> error + (stream \<times> SmushPlayer)" where
  "handleFrame e fuel frameSize b s =
     (let s0 = s\<lparr>skipNext := False\<rparr> in
      bindE (if insanity s0 then procPreRendering e s0 else Inr s0) (\<lambda>s1.
      bindE (handleFrameLoop e fuel frameSize b s1) (\<lambda>(b2, s2).
      bindE (if insanity s2 then procPostRendering e s2 else Inr s2) (\<lambda>s3.
      let s4 = (if width s3 \<noteq> 0 \<and> height s3 \<noteq> 0 then updateScreen s3 else s3);
          s5 = s4\<lparr>smixer := mixerHandleFrame e (smixer s4)\<rparr>
      in Inr (b2, s5\<lparr>frame := frame s5 + 1\<rparr>)))))"

definition handleAnimHeader ::
  "int \<Rightarrow> stream \<Rightarrow> SmushPlayer \<Rightarrow> error + (stream \<times> SmushPlayer)" where
  "handleAnimHeader subSize b s =
     (if \<not> subSize \<ge> 0x300 + 6 then Inl AssertionFailed
      else
        bindE (readUint16LE b) (\<lambda>(_, b1).
        bindE (readUint16LE b1) (\<lambda>(nb, b2).
        bindE (readUint16LE b2) (\<lambda>(_, b3).
        let s1 = s\<lparr>nbframes := nb\<rparr> in
        if skipPalette s1 then Inr (b3, s1)
        else bindE (readPalette b3) (\<lambda>(p, b4).
               Inr (b4, setDirtyColors 0 255 (s1\<lparr>pal := p\<rparr>)))))))"

text \<open>The overlay subsystem gets the whole player; this says that it leaves the frame
  counter alone.\<close>

definition insaneKeepsFrame :: "env \<Rightarrow> bool" where
  "insaneKeepsFrame e =
     ((\<forall>s s'. procPreRendering e s = Inr s' \<longrightarrow> frame s' = frame s) \<and>
      (\<forall>s s'. procPostRendering e s = Inr s' \<longrightarrow> frame s' = frame s) \<and>
      (\<forall>code flags unknown userId b s b' s'.
          procIACT e code flags unknown userId b s = Inr (b', s') \<longrightarrow> frame s' = frame s) \<and>
      (\<forall>subSize b s b' s'. procSKIP e subSize b s = Inr (b', s') \<longrightarrow> frame s' = frame s))"

text \<open>The size declared by the chunk whose header is at the cursor.\<close>

definition chunkSize :: "stream \<Rightarrow> int" where
  "chunkSize b = sint (be32 (byteAt b 4) (byteAt b 5) (byteAt b 6) (byteAt b 7))"

subsection \<open>Top-level chunks\<close>

text \<open>The file name up to its last dot, as \<^verbatim>\<open>strrchr\<close> and \<^verbatim>\<open>memcpy\<close> cut it.\<close>

definition stem :: "string \<Rightarrow> string" where
  "stem f = rev (tl (dropWhile (\<lambda>c. c \<noteq> CHR ''.'') (rev f)))"

definition tryCmpFile :: "env \<Rightarrow> string \<Rightarrow> SmushPlayer \<Rightarrow> error + SmushPlayer" where
  "tryCmpFile e filename s =
     (let s1 = s\<lparr>compressedFileMode := False\<rparr> in
      if CHR ''.'' \<notin> set filename then Inl (ErrorCall ''invalid filename'')
      else if use_vorbis e \<and> openFile e (stem filename @ ''.ogg'') \<noteq> None
        then Inr (s1\<lparr>compressedFileMode := True\<rparr>)
      else if use_mad e \<and> openFile e (stem filename @ ''.mp3'') \<noteq> None
        then Inr (s1\<lparr>compressedFileMode := True\<rparr>)
      else Inr s1)"

text \<open>The block \<^verbatim>\<open>if (_seekPos >= 0) { ... }\<close> of \<^verbatim>\<open>parseNextFrame\<close>; \<open>now\<close> is what
  \<^verbatim>\<open>getMillis()\<close> answers there.  The stream \<^verbatim>\<open>b\<close> of the handlers is \<^verbatim>\<open>*_base\<close>: the
  model passes it beside the player and stores it back.\<close>

definition seekDone :: "uint32 \<Rightarrow> stream \<Rightarrow> SmushPlayer \<Rightarrow> SmushPlayer" where
  "seekDone now b s =
     s\<lparr>base := Some (seek (seekPos s + 8) b), frame := seekFrame s, startFrame := seekFrame s,
       startTime := now, seekPos := -1\<rparr>"

definition applySeek :: "env \<Rightarrow> uint32 \<Rightarrow> SmushPlayer \<Rightarrow> error + SmushPlayer" where
  "applySeek e now s =
     (let s1 = s\<lparr>smixer := mixerStop (smixer s)\<rparr> in
      if length (seekFile s1) > 0 then
        (case openFile e (seekFile s1) of
           None \<Rightarrow> Inl (ErrorCall ''SmushPlayer: Unable to open file'')
         | Some d \<Rightarrow>
             bindE (readUint32BE \<lparr>s_data = d, s_pos = 0\<rparr>) (\<lambda>(_, b1).
             bindE (readUint32BE b1) (\<lambda>(bs, b2).
             let s2 = s1\<lparr>baseSize := bs\<rparr> in
             bindE
               (if seekPos s2 > 0 then
                  (if \<not> seekPos s2 > 8 then Inl AssertionFailed
                   else
                     bindE (readUint32BE b2) (\<lambda>(subType, b3).
                     bindE (readUint32BE b3) (\<lambda>(sz, b4).
                     let subSize = sint sz; subOffset = pos b4 in
                     if subType \<noteq> MKTAG CHR ''A'' CHR ''H'' CHR ''D'' CHR ''R''
                     then Inl AssertionFailed
                     else
                       bindE (handleAnimHeader subSize b4 s2) (\<lambda>(b5, s3).
                       Inr (seek (subOffset + subSize) b5,
                            s3\<lparr>middleAudio := True, seekPos := seekPos s3 - 8\<rparr>)))))
                else bindE (tryCmpFile e (seekFile s2) s2) (\<lambda>s3. Inr (b2, s3)))
               (\<lambda>(b6, s4). Inr (seekDone now b6 (s4\<lparr>skipPalette := False\<rparr>))))))
      else
        (case base s1 of
           None \<Rightarrow> Inl AssertionFailed
         | Some b \<Rightarrow> Inr (seekDone now b (s1\<lparr>skipPalette := True\<rparr>))))"

definition parseNextFrame :: "env \<Rightarrow> nat \<Rightarrow> uint32 \<Rightarrow> SmushPlayer \<Rightarrow> error + SmushPlayer" where
  "parseNextFrame e fuel now s =
     bindE (if seekPos s \<ge> 0 then applySeek e now s else Inr s) (\<lambda>s1.
     case base s1 of
       None \<Rightarrow> Inl AssertionFailed
     | Some b \<Rightarrow>
         bindE (readUint32BE b) (\<lambda>(subType, b1).
         bindE (readUint32BE b1) (\<lambda>(sz, b2).
         let subSize = sint sz; subOffset = pos b2 in
         if pos b2 \<ge> sint (baseSize s1) then
           Inr (s1\<lparr>base := Some b2, vm := (vm s1)\<lparr>smushVideoShouldFinish := True\<rparr>,
                   endOfFile := True\<rparr>)
         else
           bindE
             (if subType = MKTAG CHR ''A'' CHR ''H'' CHR ''D'' CHR ''R''
                then handleAnimHeader subSize b2 s1
              else if subType = MKTAG CHR ''F'' CHR ''R'' CHR ''M'' CHR ''E''
                then handleFrame e fuel subSize b2 s1
              else Inl (ErrorCall ''Unknown Chunk found''))
             (\<lambda>(b3, s2). Inr (s2\<lparr>base := Some (seek (subOffset + subSize) b3)\<rparr>)))))"

definition timerCallback :: "env \<Rightarrow> nat \<Rightarrow> uint32 \<Rightarrow> SmushPlayer \<Rightarrow> error + SmushPlayer" where
  "timerCallback e fuel now s = parseNextFrame e fuel now s"

subsection \<open>The play loop\<close>

text \<open>What the host answers during one turn of the loop: the clock at the top of the turn,
  the clock inside \<^verbatim>\<open>parseNextFrame\<close>, and the state of the two sound handles.\<close>

record tick_in =
  t_millis :: uint32
  t_millis2 :: uint32
  t_cmpActive :: bool
  t_cmpElapsed :: uint32
  t_iactActive :: bool
  t_iactElapsed :: uint32

text \<open>What one turn shows: the dirty range (\<^verbatim>\<open>_palDirtyMin\<close>, \<^verbatim>\<open>_palDirtyMax\<close>) as the
  test of line 1262 finds it, the palette range pushed (first index, count), the value of
  \<^verbatim>\<open>skipFrame\<close> when the display is decided, whether a decoded frame waits to be shown
  (\<^verbatim>\<open>_updateNeeded\<close>) at that moment, the rectangle copied to the screen (target, pitch,
  width, height), and whether the loop ends.\<close>

record tick_out =
  out_dirty :: "int \<times> int"
  out_palette :: "(int \<times> int) option"
  out_skip :: bool
  out_pending :: bool
  out_blit :: "(target \<times> int \<times> int \<times> int) option"
  out_break :: bool

text \<open>The time at which frame \<open>n\<close> is due, \<^verbatim>\<open>(n * 1000) / _speed\<close>: the product is a
  32-bit \<^verbatim>\<open>int\<close> and wraps around, the quotient truncates, and the comparison with the
  unsigned \<^verbatim>\<open>elapsed\<close> converts it to \<^verbatim>\<open>uint32\<close>.\<close>

definition frameDue :: "int \<Rightarrow> int \<Rightarrow> uint32" where
  "frameDue n speed' = word_of_int (tdiv (sint (word_of_int n * 1000 :: uint32)) speed')"

text \<open>The time played so far, from the best clock there is.\<close>

definition elapsedTime :: "tick_in \<Rightarrow> SmushPlayer \<Rightarrow> uint32" where
  "elapsedTime t s =
     (if insanity s then (t_millis t - pauseTime s) - startTime s
      else if t_cmpActive t then t_cmpElapsed t
      else if t_iactActive t then t_iactElapsed t
      else (t_millis t - pauseTime s) - startTime s)"

text \<open>Lines 1246 to 1252: when the frame is due it is decoded, and \<^verbatim>\<open>skipFrame\<close> is set
  when the next frame is due already.\<close>

definition decodeDue :: "env \<Rightarrow> nat \<Rightarrow> tick_in \<Rightarrow> SmushPlayer \<Rightarrow> error + (bool \<times> SmushPlayer)" where
  "decodeDue e fuel t s =
     (let elapsed = elapsedTime t s in
      if speed s = 0 then Inl DivisionByZero
      else if elapsed \<ge> frameDue (frame s - startFrame s) (speed s)
        then bindE (timerCallback e fuel (t_millis2 t) s)
               (\<lambda>s'. Inr (elapsed \<ge> frameDue (frame s + 1) (speed s), s'))
      else Inr (False, s))"

text \<open>Lines 1256 to 1261: the pending mouse warp and the host's input processing.\<close>

definition hostEvents :: "env \<Rightarrow> SmushPlayer \<Rightarrow> SmushPlayer" where
  "hostEvents e s =
     processInput e (if warpNeeded s then s\<lparr>warpNeeded := False\<rparr> else s)"

text \<open>Lines 1262 to 1268: a dirty palette range is pushed and reset, and clears
  \<^verbatim>\<open>skipFrame\<close>.\<close>

definition flushPalette ::
  "bool \<Rightarrow> SmushPlayer \<Rightarrow> (int \<times> int) option \<times> bool \<times> SmushPlayer" where
  "flushPalette skipFrame s =
     (if palDirtyMax s \<ge> palDirtyMin s
      then (Some (palDirtyMin s, palDirtyMax s - palDirtyMin s + 1), False,
            s\<lparr>palDirtyMax := -1, palDirtyMin := 256\<rparr>)
      else (None, skipFrame, s))"

text \<open>Lines 1269 to 1275: the counter of skips in a row.\<close>

definition countSkip :: "bool \<Rightarrow> int \<Rightarrow> bool \<times> int" where
  "countSkip skipFrame skipped =
     (if skipFrame
      then (if skipped + 1 > 10 then (False, 0) else (True, skipped + 1))
      else (False, 0))"

text \<open>Lines 1276 to 1287: the copy to the screen.\<close>

definition showFrame ::
  "bool \<Rightarrow> SmushPlayer \<Rightarrow> (target \<times> int \<times> int \<times> int) option \<times> SmushPlayer" where
  "showFrame skipFrame s =
     (if updateNeeded s \<and> \<not> skipFrame
      then (let w = min (width s) (screenWidth (vm s));
                h = min (height s) (screenHeight (vm s))
            in (Some (dst s, width s, w, h), s\<lparr>updateNeeded := False\<rparr>))
      else (None, s))"

text \<open>Lines 1288 to 1297: the two ways out of the loop.\<close>

definition endTick :: "SmushPlayer \<Rightarrow> bool \<times> SmushPlayer" where
  "endTick s =
     (if endOfFile s then (True, s)
      else if quit (vm s) \<or> saveLoadFlag (vm s) \<or> smushVideoShouldFinish (vm s)
        then (True, s\<lparr>smixer := mixerStop (smixer s)\<rparr>)
      else (False, s))"

definition play_tick ::
  "env \<Rightarrow> nat \<Rightarrow> tick_in \<Rightarrow> SmushPlayer \<Rightarrow> int \<Rightarrow> error + (SmushPlayer \<times> int \<times> tick_out)" where
  "play_tick e fuel t s skipped =
     bindE (decodeDue e fuel t s) (\<lambda>(skipFrame0, s1).
     let s2 = hostEvents e s1;
         (pal_out, skipFrame1, s3) = flushPalette skipFrame0 s2;
         (skipFrame2, skipped') = countSkip skipFrame1 skipped;
         (blit, s4) = showFrame skipFrame2 s3;
         (stop, s5) = endTick s4
     in Inr (s5, skipped',
             \<lparr>out_dirty = (palDirtyMin s2, palDirtyMax s2), out_palette = pal_out,
              out_skip = skipFrame2, out_pending = updateNeeded s3,
              out_blit = blit, out_break = stop\<rparr>))"

text \<open>The loop \<^verbatim>\<open>for (;;)\<close> of \<^verbatim>\<open>play\<close>, one turn for each answer of the host, until a
  turn ends the loop or the answers run out.\<close>

fun play_loop ::
  "env \<Rightarrow> nat \<Rightarrow> tick_in list \<Rightarrow> SmushPlayer \<Rightarrow> int \<Rightarrow> error + (SmushPlayer \<times> tick_out list)" where
  "play_loop e fuel [] s skipped = Inr (s, [])"
| "play_loop e fuel (t # ts) s skipped =
     bindE (play_tick e fuel t s skipped) (\<lambda>(s', skipped', out).
       if out_break out then Inr (s', [out])
       else bindE (play_loop e fuel ts s' skipped') (\<lambda>(s'', outs). Inr (s'', out # outs)))"

definition init :: "int \<Rightarrow> SmushPlayer \<Rightarrow> SmushPlayer" where
  "init speed' s =
     s\<lparr>frame := 0, speed := speed', endOfFile := False,
       vm := (vm s)\<lparr>smushVideoShouldFinish := False\<rparr>, dst := Primary,
       smixer := mixerStop (smixer s)\<rparr>"

definition release :: "SmushPlayer \<Rightarrow> SmushPlayer" where
  "release s =
     s\<lparr>vm := (vm s)\<lparr>smushVideoShouldFinish := True\<rparr>, strings := None, base := None,
       specialBuffer := None, frameBuffer := None\<rparr>"

definition readString :: "env \<Rightarrow> string \<Rightarrow> SmushPlayer \<Rightarrow> error + SmushPlayer" where
  "readString e file s =
     (if CHR ''.'' \<notin> set file then Inl (ErrorCall ''invalid filename'')
      else
        (let s1 = s\<lparr>strings := loadStrings e (stem file @ ''.trs'')\<rparr> in
         if strings s1 \<noteq> None then Inr s1
         else if game_id (vm s1) = GID_DIG then Inr (s1\<lparr>strings := loadStrings e ''digtxt.trs''\<rparr>)
         else Inr s1))"

definition setupAnim :: "env \<Rightarrow> string \<Rightarrow> SmushPlayer \<Rightarrow> error + SmushPlayer" where
  "setupAnim e file s =
     (if insanity s
      then (if \<not> (game_demo (vm s) \<and> platform_dos (vm s)) then readString e ''mineroad.trs'' s
            else Inr s)
      else readString e file s)"

text \<open>\<^verbatim>\<open>play\<close>: the file check, the initial state of the loop with \<^verbatim>\<open>skipped = 0\<close>, the
  loop, the teardown.  \<open>now\<close> is the clock when playback starts.  The calls that
  only reach the host (mouse cursor, sound handles, \<^verbatim>\<open>scummLoop_handleSound\<close>,
  \<^verbatim>\<open>delayMillis\<close>) leave the player as it is and are not written out.\<close>

definition play ::
  "env \<Rightarrow> nat \<Rightarrow> string \<Rightarrow> int \<Rightarrow> int \<Rightarrow> int \<Rightarrow> uint32 \<Rightarrow> tick_in list \<Rightarrow> SmushPlayer
     \<Rightarrow> error + (SmushPlayer \<times> tick_out list)" where
  "play e fuel filename speed' offset startFrame' now ts s =
     (if openFile e filename = None then Inr (s, [])
      else
        (let s1 = s\<lparr>updateNeeded := False, warpNeeded := False, palDirtyMin := 256,
                    palDirtyMax := -1, seekFile := filename, seekPos := offset,
                    seekFrame := startFrame', base := None\<rparr>
         in bindE (setupAnim e filename s1) (\<lambda>s1'.
            let s2 = init speed' s1';
                s3 = s2\<lparr>startTime := now, startFrame := startFrame', frame := startFrame',
                        pauseTime := 0\<rparr>
            in bindE (play_loop e fuel ts s3 0) (\<lambda>(s4, outs). Inr (release s4, outs)))))"

subsection \<open>A player to run the model on\<close>

text \<open>The state the constructor leaves, on a 640x480 screen, with the arrays the
  constructor does not fill set to zero.\<close>

definition newPlayer :: SmushPlayer where
  "newPlayer =
     \<lparr>vm = \<lparr>screenWidth = 640, screenHeight = 480, game_id = GID_DIG, game_demo = False,
            platform_dos = False,
            smushVideoShouldFinish = False, saveLoadFlag = False, quit = False\<rparr>,
      base = None, baseSize = 0, strings = None, nbframes = 0, frame = 0, startFrame = 0,
      speed = -1, startTime = 0, seekFile = [], seekPos = -1, seekFrame = 0,
      pal = replicate 768 0, deltaPal = replicate 768 0, palDirtyMin = 256, palDirtyMax = -1,
      width = 0, height = 0, dst = Primary, screenPixels = [], specialBuffer = None,
      frameBuffer = None, skipNext = False, storeFrame = False, compressedFileMode = False,
      insanity = False, middleAudio = False, skipPalette = False, updateNeeded = False,
      warpNeeded = False, endOfFile = False, paused = False, pauseStartTime = 0, pauseTime = 0,
      iactTable = [0, 0, 0, 0], smixer = \<lparr>channels = [], mixer_log = []\<rparr>, imuse = []\<rparr>"

text \<open>Collaborators that do nothing, and files that do not exist.\<close>

definition idleEnv :: env where
  "idleEnv =
     \<lparr>decode_codec = (\<lambda>codec src l t w h p. p), uncompress = (\<lambda>src n. None),
      procPreRendering = Inr, procPostRendering = Inr,
      procIACT = (\<lambda>code flags unknown userId b s. Inr (b, s)),
      procSKIP = (\<lambda>subSize b s. Inr (b, s)),
      drawText = (\<lambda>str hdr w h p. Inr p), subtitles = True,
      mixerHandleFrame = (\<lambda>m. m), openFile = (\<lambda>f. None), loadStrings = (\<lambda>f. None),
      use_zlib = True, use_vorbis = True, use_mad = True, processInput = (\<lambda>s. s),
      diMUSEGetParam = (\<lambda>log snd p. 1), findStreamSound = (\<lambda>log buf. 0),
      startStreamFails = (\<lambda>log snd. False),
      DIMUSE_BUFFER_SPEECH = 1, DIMUSE_BUFFER_MUSIC = 2, DIMUSE_BUFFER_SMUSH = 3,
      DIMUSE_SMUSH_SOUNDID = 12345678, DIMUSE_P_SND_TRACK_NUM = 256, DIMUSE_P_VOLUME = 1536,
      DIMUSE_P_GROUP = 1024, DIMUSE_GROUP_SPEECH = 2, DIMUSE_GROUP_MUSIC = 3,
      DIMUSE_GROUP_SFX = 1\<rparr>"

text \<open>Inputs for running the model: a clock that is late and a file of a header chunk, a
  frame with one image (codec 47, 640x480, no data) and eleven empty frames; a waiting
  384x242 frame on a 320x200 screen; a track and a buffer that have seen block 1.\<close>

definition frme :: "byte list" where
  "frme = [0x46, 0x52, 0x4D, 0x45, 0, 0, 0, 0]"

definition fobj :: "byte list" where
  "fobj = [0x46, 0x4F, 0x42, 0x4A, 0, 0, 0, 14,
           47, 0, 0, 0, 0, 0, 0x80, 0x02, 0xE0, 0x01, 0, 0, 0, 0]"





definition wideFrame :: SmushPlayer where
  "wideFrame =
     newPlayer\<lparr>vm := (vm newPlayer)\<lparr>screenWidth := 320, screenHeight := 200\<rparr>,
               speed := 1, frame := 100, width := 384, height := 242, dst := Special,
               specialBuffer := Some (replicate (242 * 384) 0), updateNeeded := True\<rparr>"

definition earlyTick :: tick_in where
  "earlyTick = \<lparr>t_millis = 5, t_millis2 = 5, t_cmpActive = False, t_cmpElapsed = 0,
                t_iactActive = False, t_iactElapsed = 0\<rparr>"

definition outOfOrder :: SmushPlayer where
  "outOfOrder =
     newPlayer\<lparr>iactTable := [0, 1, 0, 0],
               smixer := \<lparr>channels = [(7, SaudChannel\<lparr>c_index := 1\<rparr>)], mixer_log = []\<rparr>\<rparr>"

text \<open>A frame of two image sub-chunks, and a file whose header chunk declares the odd size
  0x307, followed by its pad byte and an empty frame.\<close>

definition twoImages :: stream where
  "twoImages = \<lparr>s_data = fobj @ fobj, s_pos = 0\<rparr>"

definition oddFile :: stream where
  "oddFile = \<lparr>s_data = [0x41, 0x48, 0x44, 0x52, 0, 0, 3, 7] @ replicate 776 0 @ frme, s_pos = 0\<rparr>"

definition oddHeader :: SmushPlayer where
  "oddHeader = newPlayer\<lparr>base := Some oddFile, baseSize := 10000\<rparr>"

text \<open>An interleaved-audio chunk of 22 bytes for user id 1 with the given block index, out
  of 9 blocks, with four bytes of data.\<close>

definition iactBlock :: "int \<Rightarrow> stream" where
  "iactBlock index =
     \<lparr>s_data = [8, 0, 46, 0, 0, 0, 1, 0, 0, 0, word_of_int index, 0, 9, 0, 4, 0, 0, 0, 1, 2, 3, 4],
      s_pos = 0\<rparr>"

text \<open>The player right after a seek into the middle of a file (the mixer stopped,
  \<^verbatim>\<open>_middleAudio\<close> set), the same flag on the player whose track 7 has seen block 1, and
  the data a track holds in a result of the audio feed.\<close>

definition afterSeek :: SmushPlayer where
  "afterSeek = newPlayer\<lparr>middleAudio := True\<rparr>"

definition midStream :: SmushPlayer where
  "midStream = outOfOrder\<lparr>middleAudio := True\<rparr>"

definition trackData :: "int \<Rightarrow> stream \<times> SmushPlayer \<Rightarrow> byte list option" where
  "trackData track_id r = map_option c_data (findChannel (smixer (snd r)) track_id)"


section \<open>Properties\<close>

subsection \<open>Basic facts\<close>

lemma bindE_Inr [simp]: "bindE (Inr x) f = f x"
  by (simp add: bindE_def)

lemma bindE_Inl [simp]: "bindE (Inl e) f = Inl e"
  by (simp add: bindE_def)

lemma bindE_eq_Inr: "bindE m f = Inr r \<longleftrightarrow> (\<exists>x. m = Inr x \<and> f x = Inr r)"
  by (cases m) simp_all

lemma avail_skip: "avail b n \<Longrightarrow> 0 \<le> k \<Longrightarrow> k \<le> n \<Longrightarrow> avail (skip k b) (n - k)"
  by (auto simp: avail_def skip_def)

lemma avail_mono: "avail b n \<Longrightarrow> 0 \<le> k \<Longrightarrow> k \<le> n \<Longrightarrow> avail b k"
  by (auto simp: avail_def)

lemma skip_skip [simp]: "skip m (skip n b) = skip (n + m) b"
  by (simp add: skip_def add.assoc)

lemma byteAt_skip [simp]: "byteAt (skip n b) k = byteAt b (n + k)"
  by (simp add: byteAt_def skip_def add.assoc)

lemma readUint16LE_ok:
  "avail b 2 \<Longrightarrow> readUint16LE b = Inr (uint (le16 (byteAt b 0) (byteAt b 1)), skip 2 b)"
  by (simp add: readUint16LE_def)

lemma readBytes_ok:
  "avail b n \<Longrightarrow> readBytes n b = Inr (take (nat n) (drop (nat (s_pos b)) (s_data b)), skip n b)"
  by (simp add: readBytes_def)

lemma tdiv_nonneg: "0 \<le> a \<Longrightarrow> 0 < b \<Longrightarrow> tdiv a b = a div b"
  by (cases "a = 0") (auto simp: tdiv_def sgn_if)

lemma tdiv_neg: "a < 0 \<Longrightarrow> 0 < b \<Longrightarrow> tdiv a b \<le> 0"
  by (auto simp: tdiv_def sgn_if pos_imp_zdiv_nonneg_iff)

lemma CLIP_range: "lo \<le> hi \<Longrightarrow> lo \<le> CLIP v lo hi \<and> CLIP v lo hi \<le> hi"
  by (auto simp: CLIP_def)

lemma CLIP_tdiv_floor: "CLIP (tdiv a 128) 0 255 = CLIP (a div 128) 0 255"
proof (cases "0 \<le> a")
  case True then show ?thesis by (simp add: tdiv_nonneg)
next
  case False
  then have "tdiv a 128 \<le> 0" "a div 128 < 0" by (auto simp: tdiv_neg)
  then show ?thesis by (auto simp: CLIP_def)
qed

subsection \<open>The palette\<close>

lemma uint_delta_color:
  "uint (delta_color c d) = CLIP (tdiv (uint c * 129 + sint d) 128) 0 255"
proof -
  have "0 \<le> CLIP (tdiv (uint c * 129 + sint d) 128) 0 255 \<and> CLIP (tdiv (uint c * 129 + sint d) 128) 0 255 \<le> 255"
    by (rule CLIP_range) simp
  then show ?thesis
    by (simp add: delta_color_def uint_word_of_int take_bit_int_eq_self)
qed

lemma fold_upd_nth:
  "n \<le> length p \<Longrightarrow>
   length (fold (\<lambda>i q. q[i := f (q ! i) (dp ! i)]) [0..<n] p) = length p \<and>
   (\<forall>k < length p. fold (\<lambda>i q. q[i := f (q ! i) (dp ! i)]) [0..<n] p ! k =
       (if k < n then f (p ! k) (dp ! k) else p ! k))"
proof (induction n)
  case 0 then show ?case by simp
next
  case (Suc n)
  then show ?case by (auto simp: nth_list_update less_Suc_eq)
qed

lemma applyDeltaPal_length: "length p = 768 \<Longrightarrow> length (applyDeltaPal p dp) = 768"
  using fold_upd_nth [of 768 p delta_color dp] by (simp add: applyDeltaPal_def)

lemma applyDeltaPal_nth:
  "length p = 768 \<Longrightarrow> i < 768 \<Longrightarrow> applyDeltaPal p dp ! i = delta_color (p ! i) (dp ! i)"
  using fold_upd_nth [of 768 p delta_color dp] by (simp add: applyDeltaPal_def)

lemma delta_color_zero:
  "delta_color c 0 = (if uint c < 128 \<or> c = 255 then c else c + 1)"
proof -
  have b: "0 \<le> uint c" "uint c < 256" using uint_lt2p [of c] by auto
  have "uint (delta_color c 0) = CLIP ((uint c * 129) div 128) 0 255"
    using b by (simp add: uint_delta_color tdiv_nonneg)
  also have "(uint c * 129) div 128 = uint c + uint c div 128" by simp
  finally have e: "uint (delta_color c 0) = CLIP (uint c + uint c div 128) 0 255" .
  show ?thesis
  proof (cases "uint c < 128")
    case True
    then have "uint (delta_color c 0) = uint c" using b e by (simp add: CLIP_def)
    then show ?thesis using True by (simp add: word_uint_eq_iff)
  next
    case False
    then have d: "uint c div 128 = 1" using b by simp
    show ?thesis
    proof (cases "c = 255")
      case True then show ?thesis using e by (simp add: CLIP_def word_uint_eq_iff)
    next
      case ne: False
      then have "uint c \<noteq> 255" by (metis word_of_int_uint word_of_int_numeral)
      then have lt: "uint c < 255" using b by simp
      then have "uint (c + 1) = uint c + 1" by (simp add: uint_plus_if_size word_size)
      then show ?thesis using e d lt False ne by (simp add: CLIP_def word_uint_eq_iff)
    qed
  qed
qed

lemma readDeltaPal_ok:
  "avail b (2 * int n) \<Longrightarrow> i + n \<le> length dp \<Longrightarrow>
   readDeltaPal n i b dp =
     Inr (take i dp @ map (\<lambda>k. le16 (byteAt b (2 * int k)) (byteAt b (2 * int k + 1))) [0..<n]
            @ drop (i + n) dp, skip (2 * int n) b)"
proof (induction n arbitrary: i b dp)
  case 0
  then show ?case by (simp add: skip_def)
next
  case (Suc n)
  have a2: "avail b 2" using Suc.prems(1) by (auto simp: avail_def)
  have an: "avail (skip 2 b) (2 * int n)" using Suc.prems(1) by (auto simp: avail_def skip_def)
  have il: "i < length dp" using Suc.prems(2) by simp
  let ?x = "le16 (byteAt b 0) (byteAt b 1)"
  have r: "readUint16LE b = Inr (uint ?x, skip 2 b)" using a2 by (rule readUint16LE_ok)
  have ih: "readDeltaPal n (Suc i) (skip 2 b) (dp[i := ?x]) =
     Inr (take (Suc i) (dp[i := ?x]) @
          map (\<lambda>k. le16 (byteAt (skip 2 b) (2 * int k)) (byteAt (skip 2 b) (2 * int k + 1))) [0..<n]
            @ drop (Suc i + n) (dp[i := ?x]), skip (2 * int n) (skip 2 b))"
    using Suc.IH [OF an, of "Suc i" "dp[i := ?x]"] Suc.prems(2) by simp
  have t: "take (Suc i) (dp[i := ?x]) = take i dp @ [?x]"
    using il by (simp add: take_Suc_conv_app_nth)
  have d: "drop (Suc i + n) (dp[i := ?x]) = drop (i + Suc n) dp" by simp
  have m: "map (\<lambda>k. le16 (byteAt b (2 * int k)) (byteAt b (2 * int k + 1))) [0..<Suc n]
         = ?x # map (\<lambda>k. le16 (byteAt (skip 2 b) (2 * int k)) (byteAt (skip 2 b) (2 * int k + 1))) [0..<n]"
    by (simp add: map_upt_Suc del: upt_Suc)
  have sk: "skip (2 * int n) (skip 2 b) = skip (2 * int (Suc n)) b" by (simp add: algebra_simps)
  show ?case
    unfolding readDeltaPal.simps r bindE_Inr prod.case word_of_int_uint ih t d m sk by simp
qed

lemma setDirtyColors_full:
  "palDirtyMin (setDirtyColors 0 255 s) = min (palDirtyMin s) 0 \<and>
   palDirtyMax (setDirtyColors 0 255 s) = max (palDirtyMax s) 255 \<and>
   pal (setDirtyColors 0 255 s) = pal s \<and> deltaPal (setDirtyColors 0 255 s) = deltaPal s"
  by (simp add: setDirtyColors_def Let_def)

lemma handleDeltaPalette_6:
  "avail b 6 \<Longrightarrow>
   handleDeltaPalette 6 b s =
     Inr (skip 6 b, setDirtyColors 0 255 (s\<lparr>pal := applyDeltaPal (pal s) (deltaPal s)\<rparr>))"
proof -
  assume a: "avail b 6"
  have a1: "avail b 2" and a2: "avail (skip 2 b) 2" and a3: "avail (skip 4 b) 2"
    using a by (auto simp: avail_def skip_def)
  show ?thesis
    by (simp add: handleDeltaPalette_def readUint16LE_ok a1 a2 a3)
qed

lemma handleDeltaPalette_2308:
  "avail b 2308 \<Longrightarrow> length (deltaPal s) = 768 \<Longrightarrow>
   handleDeltaPalette 2308 b s =
     Inr (skip 2308 b,
          setDirtyColors 0 255
            (s\<lparr>deltaPal := map (\<lambda>k. le16 (byteAt b (4 + 2 * int k)) (byteAt b (5 + 2 * int k))) [0..<768],
               pal := take 768 (drop (nat (s_pos b + 1540)) (s_data b))\<rparr>))"
proof -
  assume a: "avail b 2308" and l: "length (deltaPal s) = 768"
  have a1: "avail b 2" and a2: "avail (skip 2 b) 2" and a3: "avail (skip 4 b) (2 * int 768)"
    and a4: "avail (skip 1540 b) 768"
    using a by (auto simp: avail_def skip_def)
  have r: "readDeltaPal 768 0 (skip 4 b) (deltaPal s) =
      Inr (map (\<lambda>k. le16 (byteAt b (4 + 2 * int k)) (byteAt b (5 + 2 * int k))) [0..<768], skip 1540 b)"
    using readDeltaPal_ok [OF a3, of 0 "deltaPal s"] l by (simp add: algebra_simps)
  have p: "readPalette (skip 1540 b) = Inr (take 768 (drop (nat (s_pos b + 1540)) (s_data b)), skip 2308 b)"
    using readBytes_ok [OF a4] by (simp add: readPalette_def) (simp add: skip_def)
  show ?thesis
    by (simp add: handleDeltaPalette_def readUint16LE_ok a1 a2 r p)
qed

lemma handleDeltaPalette_other:
  "subSize \<noteq> 2308 \<Longrightarrow> subSize \<noteq> 6 \<Longrightarrow>
   handleDeltaPalette subSize b s =
     Inl (ErrorCall ''SmushPlayer::handleDeltaPalette() Wrong size for DeltaPalette'')"
  by (simp add: handleDeltaPalette_def)

text \<open>
  Claim C5.  When \<^verbatim>\<open>handleDeltaPalette\<close> applies the stored delta table (payload of 6
  bytes), the value at every index of the palette becomes
  \<open>clamp ((old * 129 + delta) / 128, 0, 255)\<close>, with \<open>delta\<close> the signed entry of the
  table, and the dirty range is widened to cover 0..255.  The quotient is C++'s, which
  truncates; after the clamp the flooring quotient gives the same value.
\<close>
theorem handleDeltaPalette_apply:
  assumes "length (pal s) = 768" and "avail b 6"
  shows "\<exists>s'. handleDeltaPalette 6 b s = Inr (skip 6 b, s') \<and>
           length (pal s') = 768 \<and>
           (\<forall>i<768. uint (pal s' ! i)
                       = CLIP (tdiv (uint (pal s ! i) * 129 + sint (deltaPal s ! i)) 128) 0 255 \<and>
                     uint (pal s' ! i)
                       = CLIP ((uint (pal s ! i) * 129 + sint (deltaPal s ! i)) div 128) 0 255) \<and>
           palDirtyMin s' = min (palDirtyMin s) 0 \<and> palDirtyMax s' = max (palDirtyMax s) 255 \<and>
           palDirtyMin s' \<le> 0 \<and> 255 \<le> palDirtyMax s'"
proof -
  let ?s' = "setDirtyColors 0 255 (s\<lparr>pal := applyDeltaPal (pal s) (deltaPal s)\<rparr>)"
  have r: "handleDeltaPalette 6 b s = Inr (skip 6 b, ?s')"
    using assms(2) by (rule handleDeltaPalette_6)
  have p: "pal ?s' = applyDeltaPal (pal s) (deltaPal s)"
    by (simp add: setDirtyColors_full)
  have v: "\<forall>i<768. uint (pal ?s' ! i)
             = CLIP (tdiv (uint (pal s ! i) * 129 + sint (deltaPal s ! i)) 128) 0 255 \<and>
           uint (pal ?s' ! i)
             = CLIP ((uint (pal s ! i) * 129 + sint (deltaPal s ! i)) div 128) 0 255"
    using assms(1) by (simp add: p applyDeltaPal_nth uint_delta_color CLIP_tdiv_floor)
  have d: "palDirtyMin ?s' = min (palDirtyMin s) 0 \<and> palDirtyMax ?s' = max (palDirtyMax s) 255"
    by (simp add: setDirtyColors_full)
  have l: "length (pal ?s') = 768" using assms(1) by (simp add: p applyDeltaPal_length)
  show ?thesis using r v d l by (intro exI [of _ ?s']) (simp add: CLIP_tdiv_floor)
qed

theorem handleDeltaPalette_apply_witness:
  "length (pal newPlayer) = 768 \<and> avail \<lparr>s_data = replicate 6 0, s_pos = 0\<rparr> 6 \<and>
   (\<exists>s'. handleDeltaPalette 6 \<lparr>s_data = replicate 6 0, s_pos = 0\<rparr> newPlayer
            = Inr (skip 6 \<lparr>s_data = replicate 6 0, s_pos = 0\<rparr>, s') \<and>
          uint (pal s' ! 5) = 0 \<and> palDirtyMin s' = 0 \<and> palDirtyMax s' = 255)"
proof -
  have l: "length (pal newPlayer) = 768" by (simp add: newPlayer_def)
  have a: "avail \<lparr>s_data = replicate 6 0, s_pos = 0\<rparr> 6" by (simp add: avail_def)
  have v: "pal newPlayer ! 5 = 0" "deltaPal newPlayer ! 5 = 0"
    "palDirtyMin newPlayer = 256" "palDirtyMax newPlayer = -1"
    by (simp_all add: newPlayer_def)
  obtain s' where s': "handleDeltaPalette 6 \<lparr>s_data = replicate 6 0, s_pos = 0\<rparr> newPlayer
            = Inr (skip 6 \<lparr>s_data = replicate 6 0, s_pos = 0\<rparr>, s')"
     "\<forall>i<768. uint (pal s' ! i)
                = CLIP ((uint (pal newPlayer ! i) * 129 + sint (deltaPal newPlayer ! i)) div 128) 0 255"
     "palDirtyMin s' = min (palDirtyMin newPlayer) 0" "palDirtyMax s' = max (palDirtyMax newPlayer) 255"
    using handleDeltaPalette_apply [OF l a] by blast
  have "uint (pal s' ! 5) = 0" using s'(2) v by (simp add: CLIP_def)
  then show ?thesis using l a s' v by simp
qed

text \<open>
  Claim C2, as stated: applying the deltas with an all-zero table leaves the palette
  unchanged.  It fails on the code: a palette filled with 128 becomes one filled with 129.
\<close>
theorem zero_delta_changes_palette:
  "deltaPal (newPlayer\<lparr>pal := replicate 768 128\<rparr>) = replicate 768 0 \<and>
   map_sum id (pal \<circ> snd)
     (handleDeltaPalette 6 \<lparr>s_data = replicate 6 0, s_pos = 0\<rparr>
        (newPlayer\<lparr>pal := replicate 768 128\<rparr>))
   = Inr (replicate 768 129) \<and>
   pal (newPlayer\<lparr>pal := replicate 768 128\<rparr>) = replicate 768 128 \<and>
   replicate 768 (129::byte) \<noteq> replicate 768 128"
proof -
  have a: "avail \<lparr>s_data = replicate 6 0, s_pos = 0\<rparr> 6" by (simp add: avail_def)
  have d: "deltaPal (newPlayer\<lparr>pal := replicate 768 128\<rparr>) = replicate 768 0"
    by (simp add: newPlayer_def)
  have e: "applyDeltaPal (replicate 768 128) (replicate 768 0) = replicate 768 129"
  proof (rule nth_equalityI)
    show "length (applyDeltaPal (replicate 768 128) (replicate 768 0)) = length (replicate 768 (129::byte))"
      by (simp add: applyDeltaPal_length)
  next
    fix i assume "i < length (applyDeltaPal (replicate 768 128) (replicate 768 0))"
    then have i: "i < 768" by (simp add: applyDeltaPal_length)
    then show "applyDeltaPal (replicate 768 128) (replicate 768 0) ! i = replicate 768 (129::byte) ! i"
      by (simp add: applyDeltaPal_nth delta_color_zero)
  qed
  show ?thesis
    unfolding handleDeltaPalette_6 [OF a] using d e
    by (simp add: setDirtyColors_full)
qed

text \<open>
  Claim C2, amended.  Applying the deltas with an all-zero table leaves every channel
  value below 128, and the value 255, unchanged, and raises every value from 128 to 254
  by one.
\<close>
theorem handleDeltaPalette_zero_delta:
  assumes "length (pal s) = 768" and "avail b 6" and "deltaPal s = replicate 768 0"
  shows "\<exists>s'. handleDeltaPalette 6 b s = Inr (skip 6 b, s') \<and>
           (\<forall>i<768. pal s' ! i =
              (if uint (pal s ! i) < 128 \<or> pal s ! i = 255 then pal s ! i else pal s ! i + 1))"
proof -
  let ?s' = "setDirtyColors 0 255 (s\<lparr>pal := applyDeltaPal (pal s) (deltaPal s)\<rparr>)"
  have r: "handleDeltaPalette 6 b s = Inr (skip 6 b, ?s')"
    using assms(2) by (rule handleDeltaPalette_6)
  have "\<forall>i<768. pal ?s' ! i =
              (if uint (pal s ! i) < 128 \<or> pal s ! i = 255 then pal s ! i else pal s ! i + 1)"
    using assms(1,3) by (simp add: setDirtyColors_full applyDeltaPal_nth delta_color_zero)
  then show ?thesis using r by blast
qed

theorem handleDeltaPalette_zero_delta_witness:
  "length (pal (newPlayer\<lparr>pal := replicate 768 200\<rparr>)) = 768 \<and>
   avail \<lparr>s_data = replicate 6 0, s_pos = 0\<rparr> 6 \<and>
   deltaPal (newPlayer\<lparr>pal := replicate 768 200\<rparr>) = replicate 768 0 \<and>
   (\<exists>s'. handleDeltaPalette 6 \<lparr>s_data = replicate 6 0, s_pos = 0\<rparr>
            (newPlayer\<lparr>pal := replicate 768 200\<rparr>)
            = Inr (skip 6 \<lparr>s_data = replicate 6 0, s_pos = 0\<rparr>, s') \<and> pal s' ! 7 = 201)"
proof -
  let ?s = "newPlayer\<lparr>pal := replicate 768 200\<rparr>"
  have l: "length (pal ?s) = 768" by simp
  have a: "avail \<lparr>s_data = replicate 6 0, s_pos = 0\<rparr> 6" by (simp add: avail_def)
  have d: "deltaPal ?s = replicate 768 0" by (simp add: newPlayer_def)
  obtain s' where s': "handleDeltaPalette 6 \<lparr>s_data = replicate 6 0, s_pos = 0\<rparr> ?s
            = Inr (skip 6 \<lparr>s_data = replicate 6 0, s_pos = 0\<rparr>, s')"
     "\<forall>i<768. pal s' ! i =
              (if uint (pal ?s ! i) < 128 \<or> pal ?s ! i = 255 then pal ?s ! i else pal ?s ! i + 1)"
    using handleDeltaPalette_zero_delta [OF l a d] by blast
  have "pal s' ! 7 = 201" using s'(2) by simp
  then show ?thesis using l a d s'(1) by blast
qed

text \<open>
  Claim C8.  \<^verbatim>\<open>handleDeltaPalette\<close> accepts exactly two payload lengths.  With
  0x300 * 3 + 4 bytes it stores the 768 entries of the delta table and copies a new full
  palette from the stream, marking 0..255 dirty, without applying a delta; with 6 bytes it
  keeps the table and applies it to the current palette; any other length is the fatal
  \<^verbatim>\<open>error\<close>.
\<close>
theorem handleDeltaPalette_lengths:
  "(subSize \<noteq> 0x300 * 3 + 4 \<and> subSize \<noteq> 6 \<longrightarrow>
      handleDeltaPalette subSize b s =
        Inl (ErrorCall ''SmushPlayer::handleDeltaPalette() Wrong size for DeltaPalette'')) \<and>
   (avail b (0x300 * 3 + 4) \<and> length (deltaPal s) = 768 \<longrightarrow>
      (\<exists>s'. handleDeltaPalette (0x300 * 3 + 4) b s = Inr (skip (0x300 * 3 + 4) b, s') \<and>
         deltaPal s' = map (\<lambda>k. le16 (byteAt b (4 + 2 * int k)) (byteAt b (5 + 2 * int k))) [0..<768] \<and>
         pal s' = take 768 (drop (nat (s_pos b + 1540)) (s_data b)) \<and>
         palDirtyMin s' = min (palDirtyMin s) 0 \<and> palDirtyMax s' = max (palDirtyMax s) 255)) \<and>
   (avail b 6 \<and> length (pal s) = 768 \<longrightarrow>
      (\<exists>s'. handleDeltaPalette 6 b s = Inr (skip 6 b, s') \<and>
         deltaPal s' = deltaPal s \<and>
         (\<forall>i<768. pal s' ! i = delta_color (pal s ! i) (deltaPal s ! i)) \<and>
         palDirtyMin s' = min (palDirtyMin s) 0 \<and> palDirtyMax s' = max (palDirtyMax s) 255))"
proof (intro conjI impI)
  assume "subSize \<noteq> 0x300 * 3 + 4 \<and> subSize \<noteq> 6"
  then show "handleDeltaPalette subSize b s =
        Inl (ErrorCall ''SmushPlayer::handleDeltaPalette() Wrong size for DeltaPalette'')"
    by (simp add: handleDeltaPalette_other)
next
  assume "avail b (0x300 * 3 + 4) \<and> length (deltaPal s) = 768"
  then have a: "avail b 2308" and l: "length (deltaPal s) = 768" by simp_all
  show "\<exists>s'. handleDeltaPalette (0x300 * 3 + 4) b s = Inr (skip (0x300 * 3 + 4) b, s') \<and>
         deltaPal s' = map (\<lambda>k. le16 (byteAt b (4 + 2 * int k)) (byteAt b (5 + 2 * int k))) [0..<768] \<and>
         pal s' = take 768 (drop (nat (s_pos b + 1540)) (s_data b)) \<and>
         palDirtyMin s' = min (palDirtyMin s) 0 \<and> palDirtyMax s' = max (palDirtyMax s) 255"
    using handleDeltaPalette_2308 [OF a l] by (simp add: setDirtyColors_full)
next
  assume "avail b 6 \<and> length (pal s) = 768"
  then have a: "avail b 6" and l: "length (pal s) = 768" by simp_all
  show "\<exists>s'. handleDeltaPalette 6 b s = Inr (skip 6 b, s') \<and>
         deltaPal s' = deltaPal s \<and>
         (\<forall>i<768. pal s' ! i = delta_color (pal s ! i) (deltaPal s ! i)) \<and>
         palDirtyMin s' = min (palDirtyMin s) 0 \<and> palDirtyMax s' = max (palDirtyMax s) 255"
    using handleDeltaPalette_6 [OF a] l by (simp add: setDirtyColors_full applyDeltaPal_nth)
qed

theorem handleDeltaPalette_lengths_witness:
  "((7::int) \<noteq> 0x300 * 3 + 4 \<and> (7::int) \<noteq> 6) \<and>
   handleDeltaPalette 7 \<lparr>s_data = replicate 2308 0, s_pos = 0\<rparr> newPlayer =
     Inl (ErrorCall ''SmushPlayer::handleDeltaPalette() Wrong size for DeltaPalette'') \<and>
   (avail \<lparr>s_data = replicate 2308 0, s_pos = 0\<rparr> (0x300 * 3 + 4) \<and>
    length (deltaPal newPlayer) = 768) \<and>
   (\<exists>s'. handleDeltaPalette (0x300 * 3 + 4) \<lparr>s_data = replicate 2308 0, s_pos = 0\<rparr> newPlayer
            = Inr (skip (0x300 * 3 + 4) \<lparr>s_data = replicate 2308 0, s_pos = 0\<rparr>, s') \<and>
          pal s' = replicate 768 0 \<and> palDirtyMin s' = 0 \<and> palDirtyMax s' = 255) \<and>
   (avail \<lparr>s_data = replicate 2308 0, s_pos = 0\<rparr> 6 \<and> length (pal newPlayer) = 768) \<and>
   (\<exists>s'. handleDeltaPalette 6 \<lparr>s_data = replicate 2308 0, s_pos = 0\<rparr> newPlayer
            = Inr (skip 6 \<lparr>s_data = replicate 2308 0, s_pos = 0\<rparr>, s') \<and>
          deltaPal s' = deltaPal newPlayer \<and> palDirtyMin s' = 0 \<and> palDirtyMax s' = 255)"
proof -
  let ?b = "\<lparr>s_data = replicate 2308 0, s_pos = 0\<rparr>"
  have n: "(7::int) \<noteq> 0x300 * 3 + 4 \<and> (7::int) \<noteq> 6" by simp
  have a: "avail ?b (0x300 * 3 + 4) \<and> length (deltaPal newPlayer) = 768"
    by (simp add: avail_def newPlayer_def)
  have c: "avail ?b 6 \<and> length (pal newPlayer) = 768"
    by (simp add: avail_def newPlayer_def)
  have d: "palDirtyMin newPlayer = 256" "palDirtyMax newPlayer = -1"
    by (simp_all add: newPlayer_def)
  have t: "take 768 (drop (nat (s_pos ?b + 1540)) (s_data ?b)) = replicate 768 0" by simp
  note th = handleDeltaPalette_lengths [of 7 ?b newPlayer]
  from th n have 1: "handleDeltaPalette 7 ?b newPlayer =
     Inl (ErrorCall ''SmushPlayer::handleDeltaPalette() Wrong size for DeltaPalette'')" by blast
  from th a obtain s1 where 2: "handleDeltaPalette (0x300 * 3 + 4) ?b newPlayer
        = Inr (skip (0x300 * 3 + 4) ?b, s1)"
      "pal s1 = take 768 (drop (nat (s_pos ?b + 1540)) (s_data ?b))"
      "palDirtyMin s1 = min (palDirtyMin newPlayer) 0"
      "palDirtyMax s1 = max (palDirtyMax newPlayer) 255" by blast
  from th c obtain s2 where 3: "handleDeltaPalette 6 ?b newPlayer = Inr (skip 6 ?b, s2)"
      "deltaPal s2 = deltaPal newPlayer"
      "palDirtyMin s2 = min (palDirtyMin newPlayer) 0"
      "palDirtyMax s2 = max (palDirtyMax newPlayer) 255" by blast
  have e2: "pal s1 = replicate 768 0 \<and> palDirtyMin s1 = 0 \<and> palDirtyMax s1 = 255"
    using 2 d t by simp
  have e3: "palDirtyMin s2 = 0 \<and> palDirtyMax s2 = 255" using 3 d by simp
  show ?thesis using n 1 a c 2(1) 3(1,2) e2 e3 by blast
qed

subsection \<open>Pause and resume\<close>

text \<open>
  Claim C10.  \<^verbatim>\<open>pause()\<close> and \<^verbatim>\<open>unpause()\<close> are idempotent: \<^verbatim>\<open>pause()\<close> on a paused
  player and \<^verbatim>\<open>unpause()\<close> on a running player change no state, so a second call in a
  row has no effect whatever the clock shows; \<^verbatim>\<open>pause()\<close> leaves the accumulated pause
  time alone, and a matched pair adds to it the time between the two calls.
\<close>
theorem pause_unpause_idempotent:
  "(paused s \<longrightarrow> pause t s = s) \<and>
   (\<not> paused s \<longrightarrow> unpause t s = s) \<and>
   pause t2 (pause t1 s) = pause t1 s \<and>
   unpause t2 (unpause t1 s) = unpause t1 s \<and>
   pauseTime (pause t s) = pauseTime s \<and>
   (\<not> paused s \<longrightarrow> pauseTime (unpause t2 (pause t1 s)) = pauseTime s + (t2 - t1))"
  by (simp add: pause_def unpause_def)

theorem pause_unpause_idempotent_witness:
  "\<not> paused newPlayer \<and> unpause 9 newPlayer = newPlayer \<and>
   paused (pause 5 newPlayer) \<and> pause 9 (pause 5 newPlayer) = pause 5 newPlayer \<and>
   pauseTime (unpause 12 (pause 5 newPlayer)) = 7"
proof -
  have n: "\<not> paused newPlayer" by (simp add: newPlayer_def)
  have p: "paused (pause 5 newPlayer)" using n by (simp add: pause_def)
  have z: "pauseTime newPlayer = 0" by (simp add: newPlayer_def)
  show ?thesis
    using n p z pause_unpause_idempotent [of newPlayer 9 12 5]
      pause_unpause_idempotent [of "pause 5 newPlayer" 9 9 9]
    by simp
qed

subsection \<open>Frame objects\<close>

lemma decodeInto_ok:
  "codec = 1 \<or> codec = 3 \<or> codec = 37 \<or> codec = 47 \<or> codec = 20 \<Longrightarrow>
   \<exists>s'. decodeInto e codec src l t w h s = Inr s' \<and> dst s' = dst s \<and>
        width s' = (if h = 242 \<and> w = 384 then w else screenWidth (vm s)) \<and>
        height s' = (if h = 242 \<and> w = 384 then h else screenHeight (vm s))"
  by (cases "dst s") (simp_all add: decodeInto_def Let_def storeFrameStep_def setDst_def)

lemma decodeFrameObject_routing:
  "(w = 384 \<and> h = 242 \<and> (codec = 1 \<or> codec = 3 \<or> codec = 37 \<or> codec = 47 \<or> codec = 20) \<longrightarrow>
      (\<exists>s'. decodeFrameObject e codec src l t w h s = Inr s' \<and>
            dst s' = Special \<and> width s' = 384 \<and> height s' = 242)) \<and>
   (\<not> (w = 384 \<and> h = 242) \<and> (w > screenWidth (vm s) \<or> h > screenHeight (vm s)) \<longrightarrow>
      decodeFrameObject e codec src l t w h s = Inr s) \<and>
   (\<not> (w = 384 \<and> h = 242) \<and> \<not> insanity s \<and> (w \<noteq> screenWidth (vm s) \<or> h \<noteq> screenHeight (vm s)) \<longrightarrow>
      decodeFrameObject e codec src l t w h s = Inr s) \<and>
   (\<not> (w = 384 \<and> h = 242) \<and> w \<le> screenWidth (vm s) \<and> h \<le> screenHeight (vm s) \<and>
    (insanity s \<or> (w = screenWidth (vm s) \<and> h = screenHeight (vm s))) \<and>
    (codec = 1 \<or> codec = 3 \<or> codec = 37 \<or> codec = 47 \<or> codec = 20) \<longrightarrow>
      (\<exists>s'. decodeFrameObject e codec src l t w h s = Inr s' \<and> dst s' = dst s \<and>
            width s' = screenWidth (vm s) \<and> height s' = screenHeight (vm s)))"
proof (intro conjI impI)
  assume a: "w = 384 \<and> h = 242 \<and> (codec = 1 \<or> codec = 3 \<or> codec = 37 \<or> codec = 47 \<or> codec = 20)"
  let ?s = "(if specialBuffer s = None
            then s\<lparr>specialBuffer := Some (replicate (242 * 384) 0)\<rparr> else s)\<lparr>dst := Special\<rparr>"
  from a have c: "codec = 1 \<or> codec = 3 \<or> codec = 37 \<or> codec = 47 \<or> codec = 20" by simp
  from decodeInto_ok [OF c, of e src l t w h ?s] a
  show "\<exists>s'. decodeFrameObject e codec src l t w h s = Inr s' \<and>
            dst s' = Special \<and> width s' = 384 \<and> height s' = 242"
    by (simp add: decodeFrameObject_def)
next
  assume "\<not> (w = 384 \<and> h = 242) \<and> (w > screenWidth (vm s) \<or> h > screenHeight (vm s))"
  then show "decodeFrameObject e codec src l t w h s = Inr s"
    by (auto simp: decodeFrameObject_def)
next
  assume "\<not> (w = 384 \<and> h = 242) \<and> \<not> insanity s \<and> (w \<noteq> screenWidth (vm s) \<or> h \<noteq> screenHeight (vm s))"
  then show "decodeFrameObject e codec src l t w h s = Inr s"
    by (auto simp: decodeFrameObject_def)
next
  assume a: "\<not> (w = 384 \<and> h = 242) \<and> w \<le> screenWidth (vm s) \<and> h \<le> screenHeight (vm s) \<and>
    (insanity s \<or> (w = screenWidth (vm s) \<and> h = screenHeight (vm s))) \<and>
    (codec = 1 \<or> codec = 3 \<or> codec = 37 \<or> codec = 47 \<or> codec = 20)"
  then have c: "codec = 1 \<or> codec = 3 \<or> codec = 37 \<or> codec = 47 \<or> codec = 20" by simp
  from decodeInto_ok [OF c, of e src l t w h s] a
  show "\<exists>s'. decodeFrameObject e codec src l t w h s = Inr s' \<and> dst s' = dst s \<and>
            width s' = screenWidth (vm s) \<and> height s' = screenHeight (vm s)"
    by (auto simp: decodeFrameObject_def)
qed

text \<open>
  Claim C6.  \<^verbatim>\<open>decodeFrameObject\<close> routes by dimensions: 384x242 goes to the special
  buffer, a frame larger than the screen is skipped, so is a frame of other dimensions
  than the screen when insanity mode is off; these hold (\<open>decodeFrameObject_routing\<close>).
  Otherwise the claim has the decode target the primary buffer, but the code leaves
  \<^verbatim>\<open>_dst\<close> where it is: after one 384x242 frame a frame of the screen's size is
  decoded into the special buffer, with the current dimensions set to the screen's.
\<close>
theorem decodeFrameObject_special_then_screen:
  "dst newPlayer = Primary \<and> screenWidth (vm newPlayer) = 640 \<and> screenHeight (vm newPlayer) = 480 \<and>
   map_sum id dst
     (bindE (decodeFrameObject idleEnv 47 [] 0 0 384 242 newPlayer)
            (decodeFrameObject idleEnv 47 [] 0 0 640 480)) = Inr Special \<and>
   map_sum id width
     (bindE (decodeFrameObject idleEnv 47 [] 0 0 384 242 newPlayer)
            (decodeFrameObject idleEnv 47 [] 0 0 640 480)) = Inr 640 \<and>
   map_sum id height
     (bindE (decodeFrameObject idleEnv 47 [] 0 0 384 242 newPlayer)
            (decodeFrameObject idleEnv 47 [] 0 0 640 480)) = Inr 480"
  by (simp add: decodeFrameObject_def decodeInto_def storeFrameStep_def setDst_def getDst_def
      idleEnv_def newPlayer_def Let_def bindE_def)

theorem decodeFrameObject_special_then_screen_witness:
  "map_sum id dst
     (bindE (decodeFrameObject idleEnv 47 [] 0 0 384 242 newPlayer)
            (decodeFrameObject idleEnv 47 [] 0 0 640 480)) \<noteq> Inr Primary"
  using decodeFrameObject_special_then_screen by simp

subsection \<open>Audio blocks out of order\<close>

lemma handleSoundBuffer_appends:
  assumes "avail b n"
  shows "\<exists>s' c'. handleSoundBuffer track_id index max_frames flags vol pan' b n s = Inr (skip n b, s') \<and>
           findChannel (smixer s') track_id = Some c' \<and>
           c_data c' = (case findChannel (smixer s) track_id of None \<Rightarrow> [] | Some c \<Rightarrow> c_data c)
                         @ take (nat n) (drop (nat (s_pos b)) (s_data b)) \<and>
           mixer_log (smixer s') = mixer_log (smixer s) @
             (if \<not> middleAudio s \<and> index \<noteq> 0 \<and>
                 index \<noteq> (case findChannel (smixer s) track_id of None \<Rightarrow> 0 | Some c \<Rightarrow> c_index c) + 1
              then [''invalid index in SaudChannel::checkParameters()''] else [])"
  using assms
  by (auto simp: handleSoundBuffer_def Let_def appendData_def readBytes_ok bindE_def
      checkParameters_def setParameters_def findChannel_def putChannel_def SaudChannel_def
      split: option.splits)

lemma handleIACT_DIG_drops:
  assumes "index \<noteq> 0" and "iactBuf e userId = Inr (bufId, volume)"
    and "iactTable s ! nat bufId - index \<noteq> -1" and "avail b (subSize - 18)"
  shows "handleIACT_DIG e subSize userId index nbframes' b s = Inr (skip (subSize - 18) b, s)"
  using assms by (simp add: handleIACT_DIG_def readBytes_ok bindE_def)

text \<open>
  Claim C3, as stated: for every block whose index is not zero and not the successor of
  the track's last-seen index, \<^verbatim>\<open>handleSoundBuffer\<close> logs the inconsistency and still
  appends.  The logging fails in mid-stream-audio mode: with \<^verbatim>\<open>_middleAudio\<close> set,
  block 5 is appended and nothing is logged, for a track without a channel and for a track
  that has seen block 1.
\<close>
theorem mid_stream_block_not_logged:
  "middleAudio afterSeek \<and> findChannel (smixer afterSeek) 7 = None \<and>
   map_sum id (mixer_log \<circ> smixer \<circ> snd)
     (handleSoundBuffer 7 5 9 0 127 0 \<lparr>s_data = [1, 2, 3, 4], s_pos = 0\<rparr> 4 afterSeek) = Inr [] \<and>
   map_sum id (trackData 7)
     (handleSoundBuffer 7 5 9 0 127 0 \<lparr>s_data = [1, 2, 3, 4], s_pos = 0\<rparr> 4 afterSeek)
     = Inr (Some [1, 2, 3, 4]) \<and>
   middleAudio midStream \<and> findChannel (smixer midStream) 7 = Some (SaudChannel\<lparr>c_index := 1\<rparr>) \<and>
   map_sum id (mixer_log \<circ> smixer \<circ> snd)
     (handleSoundBuffer 7 5 9 0 127 0 \<lparr>s_data = [1, 2, 3, 4], s_pos = 0\<rparr> 4 midStream) = Inr [] \<and>
   map_sum id (trackData 7)
     (handleSoundBuffer 7 5 9 0 127 0 \<lparr>s_data = [1, 2, 3, 4], s_pos = 0\<rparr> 4 midStream)
     = Inr (Some [1, 2, 3, 4])"
  by (simp add: handleSoundBuffer_def appendData_def readBytes_def avail_def skip_def
      setParameters_def checkParameters_def findChannel_def putChannel_def SaudChannel_def
      trackData_def afterSeek_def midStream_def outOfOrder_def newPlayer_def Let_def)

text \<open>
  Claim C3, amended.  For an audio block whose index is not zero and not the successor of
  the track's last-seen index, \<^verbatim>\<open>handleSoundBuffer\<close> still appends the payload to the
  channel (it appends in every case), and logs the inconsistency except in
  mid-stream-audio mode (\<^verbatim>\<open>_middleAudio\<close> set), where the index is not checked and
  nothing is logged; the branch of \<^verbatim>\<open>handleIACT\<close> for The Dig returns without feeding
  the stream and leaves the player as it was.
\<close>
theorem out_of_order_audio_block:
  "(avail b n \<longrightarrow>
      (\<exists>s' c'. handleSoundBuffer track_id index max_frames flags vol pan' b n s = Inr (skip n b, s') \<and>
         findChannel (smixer s') track_id = Some c' \<and>
         c_data c' = (case findChannel (smixer s) track_id of None \<Rightarrow> [] | Some c \<Rightarrow> c_data c)
                       @ take (nat n) (drop (nat (s_pos b)) (s_data b)) \<and>
         mixer_log (smixer s') = mixer_log (smixer s) @
           (if \<not> middleAudio s \<and> index \<noteq> 0 \<and>
               index \<noteq> (case findChannel (smixer s) track_id of None \<Rightarrow> 0 | Some c \<Rightarrow> c_index c) + 1
            then [''invalid index in SaudChannel::checkParameters()''] else []))) \<and>
   (index \<noteq> 0 \<and> iactBuf e userId = Inr (bufId, volume) \<and>
    iactTable s ! nat bufId - index \<noteq> -1 \<and> avail b (subSize - 18) \<longrightarrow>
      handleIACT_DIG e subSize userId index nbframes' b s = Inr (skip (subSize - 18) b, s))"
proof (intro conjI impI)
  assume a: "avail b n"
  from handleSoundBuffer_appends [OF a, of track_id index max_frames flags vol pan' s]
  show "\<exists>s' c'. handleSoundBuffer track_id index max_frames flags vol pan' b n s = Inr (skip n b, s') \<and>
         findChannel (smixer s') track_id = Some c' \<and>
         c_data c' = (case findChannel (smixer s) track_id of None \<Rightarrow> [] | Some c \<Rightarrow> c_data c)
                       @ take (nat n) (drop (nat (s_pos b)) (s_data b)) \<and>
         mixer_log (smixer s') = mixer_log (smixer s) @
           (if \<not> middleAudio s \<and> index \<noteq> 0 \<and>
               index \<noteq> (case findChannel (smixer s) track_id of None \<Rightarrow> 0 | Some c \<Rightarrow> c_index c) + 1
            then [''invalid index in SaudChannel::checkParameters()''] else [])" .
next
  assume "index \<noteq> 0 \<and> iactBuf e userId = Inr (bufId, volume) \<and>
    iactTable s ! nat bufId - index \<noteq> -1 \<and> avail b (subSize - 18)"
  then show "handleIACT_DIG e subSize userId index nbframes' b s = Inr (skip (subSize - 18) b, s)"
    by (simp add: handleIACT_DIG_drops)
qed

lemmas iact_simps = handleIACT_def handleIACT_DIG_def iactBuf_def readUint16LE_def
  readSint16LE_def readUint32LE_def readBytes_def le16_def be32_def avail_def byteAt_def
  skip_def Let_def iactBlock_def outOfOrder_def newPlayer_def idleEnv_def

lemma iactBlock_out_of_order:
  "handleIACT idleEnv 22 (iactBlock 3) outOfOrder = Inr (skip 22 (iactBlock 3), outOfOrder)"
  by (simp add: iact_simps)

lemma iactBlock_in_order:
  "map_sum id (imuse \<circ> snd) (handleIACT idleEnv 22 (iactBlock 2) outOfOrder)
     = Inr [FeedStream 12345679 [1, 2, 3, 4] 4 False]"
  by (simp add: iact_simps)

theorem out_of_order_audio_block_witness:
  "avail \<lparr>s_data = [1, 2, 3, 4], s_pos = 0\<rparr> 4 \<and>
   findChannel (smixer outOfOrder) 7 = Some (SaudChannel\<lparr>c_index := 1\<rparr>) \<and>
   \<not> middleAudio outOfOrder \<and>
   (\<exists>s' c'. handleSoundBuffer 7 3 9 0 127 0 \<lparr>s_data = [1, 2, 3, 4], s_pos = 0\<rparr> 4 outOfOrder
              = Inr (skip 4 \<lparr>s_data = [1, 2, 3, 4], s_pos = 0\<rparr>, s') \<and>
       findChannel (smixer s') 7 = Some c' \<and> c_data c' = [1, 2, 3, 4] \<and>
       mixer_log (smixer s') = [''invalid index in SaudChannel::checkParameters()'']) \<and>
   middleAudio midStream \<and>
   (\<exists>s' c'. handleSoundBuffer 7 3 9 0 127 0 \<lparr>s_data = [1, 2, 3, 4], s_pos = 0\<rparr> 4 midStream
              = Inr (skip 4 \<lparr>s_data = [1, 2, 3, 4], s_pos = 0\<rparr>, s') \<and>
       findChannel (smixer s') 7 = Some c' \<and> c_data c' = [1, 2, 3, 4] \<and>
       mixer_log (smixer s') = []) \<and>
   iactBuf idleEnv 1 = Inr (1, 127) \<and> iactTable outOfOrder ! nat 1 - 3 \<noteq> -1 \<and>
   avail \<lparr>s_data = [1, 2, 3, 4], s_pos = 0\<rparr> (22 - 18) \<and>
   handleIACT_DIG idleEnv 22 1 3 9 \<lparr>s_data = [1, 2, 3, 4], s_pos = 0\<rparr> outOfOrder
     = Inr (skip (22 - 18) \<lparr>s_data = [1, 2, 3, 4], s_pos = 0\<rparr>, outOfOrder) \<and>
   handleIACT idleEnv 22 (iactBlock 3) outOfOrder = Inr (skip 22 (iactBlock 3), outOfOrder) \<and>
   map_sum id (imuse \<circ> snd) (handleIACT idleEnv 22 (iactBlock 2) outOfOrder)
     = Inr [FeedStream 12345679 [1, 2, 3, 4] 4 False]"
proof -
  let ?b = "\<lparr>s_data = [1, 2, 3, 4], s_pos = 0\<rparr>"
  let ?msg = "''invalid index in SaudChannel::checkParameters()''"
  have a: "avail ?b 4" by (simp add: avail_def)
  have f: "findChannel (smixer outOfOrder) 7 = Some (SaudChannel\<lparr>c_index := 1\<rparr>)"
    by (simp add: outOfOrder_def findChannel_def)
  have f': "findChannel (smixer midStream) 7 = Some (SaudChannel\<lparr>c_index := 1\<rparr>)"
    by (simp add: midStream_def outOfOrder_def findChannel_def)
  have m: "\<not> middleAudio outOfOrder" "mixer_log (smixer outOfOrder) = []"
    by (simp_all add: outOfOrder_def newPlayer_def)
  have m': "middleAudio midStream" "mixer_log (smixer midStream) = []"
    by (simp_all add: midStream_def outOfOrder_def newPlayer_def)
  have i: "iactBuf idleEnv 1 = Inr (1, 127)" by (simp add: iactBuf_def)
  have t: "iactTable outOfOrder ! nat 1 - 3 \<noteq> -1" by (simp add: outOfOrder_def)
  have a2: "avail ?b (22 - 18)" by (simp add: avail_def)
  note th = out_of_order_audio_block [of ?b 4 7 3 9 0 127 0 outOfOrder idleEnv 1 1 127 22 9]
  note th' = out_of_order_audio_block [of ?b 4 7 3 9 0 127 0 midStream idleEnv 1 1 127 22 9]
  from th a obtain s1 c1 where g:
    "handleSoundBuffer 7 3 9 0 127 0 ?b 4 outOfOrder = Inr (skip 4 ?b, s1)"
    "findChannel (smixer s1) 7 = Some c1"
    "c_data c1 = (case findChannel (smixer outOfOrder) 7 of None \<Rightarrow> [] | Some c \<Rightarrow> c_data c)
                       @ take (nat 4) (drop (nat (s_pos ?b)) (s_data ?b))"
    "mixer_log (smixer s1) = mixer_log (smixer outOfOrder) @
           (if \<not> middleAudio outOfOrder \<and> (3::int) \<noteq> 0 \<and>
               3 \<noteq> (case findChannel (smixer outOfOrder) 7 of None \<Rightarrow> 0 | Some c \<Rightarrow> c_index c) + 1
            then [?msg] else [])"
    by blast
  from th' a obtain s2 c2 where h:
    "handleSoundBuffer 7 3 9 0 127 0 ?b 4 midStream = Inr (skip 4 ?b, s2)"
    "findChannel (smixer s2) 7 = Some c2"
    "c_data c2 = (case findChannel (smixer midStream) 7 of None \<Rightarrow> [] | Some c \<Rightarrow> c_data c)
                       @ take (nat 4) (drop (nat (s_pos ?b)) (s_data ?b))"
    "mixer_log (smixer s2) = mixer_log (smixer midStream) @
           (if \<not> middleAudio midStream \<and> (3::int) \<noteq> 0 \<and>
               3 \<noteq> (case findChannel (smixer midStream) 7 of None \<Rightarrow> 0 | Some c \<Rightarrow> c_index c) + 1
            then [?msg] else [])"
    by blast
  have d1: "c_data c1 = [1, 2, 3, 4]" using g(3) f by (simp add: SaudChannel_def)
  have l1: "mixer_log (smixer s1) = [?msg]" using g(4) f m by (simp add: SaudChannel_def)
  have d2: "c_data c2 = [1, 2, 3, 4]" using h(3) f' by (simp add: SaudChannel_def)
  have l2: "mixer_log (smixer s2) = []" using h(4) m' by simp
  have dig: "handleIACT_DIG idleEnv 22 1 3 9 ?b outOfOrder = Inr (skip (22 - 18) ?b, outOfOrder)"
    using th i t a2 by simp
  have e1: "\<exists>s' c'. handleSoundBuffer 7 3 9 0 127 0 ?b 4 outOfOrder = Inr (skip 4 ?b, s') \<and>
       findChannel (smixer s') 7 = Some c' \<and> c_data c' = [1, 2, 3, 4] \<and>
       mixer_log (smixer s') = [?msg]"
    using g(1,2) d1 l1 by blast
  have e2: "\<exists>s' c'. handleSoundBuffer 7 3 9 0 127 0 ?b 4 midStream = Inr (skip 4 ?b, s') \<and>
       findChannel (smixer s') 7 = Some c' \<and> c_data c' = [1, 2, 3, 4] \<and>
       mixer_log (smixer s') = []"
    using h(1,2) d2 l2 by blast
  show ?thesis
    using a f m(1) e1 m'(1) e2 i t a2 dig iactBlock_out_of_order iactBlock_in_order
    by (intro conjI) assumption+
qed

subsection \<open>The frame dispatcher\<close>

lemma setDirtyColors_frame [simp]: "frame (setDirtyColors a b s) = frame s"
  by (simp add: setDirtyColors_def Let_def)

lemma setDst_frame [simp]: "frame (setDst p s) = frame s"
  by (cases "dst s") (simp_all add: setDst_def)

lemma storeFrameStep_frame [simp]: "frame (storeFrameStep s) = frame s"
  by (simp add: storeFrameStep_def Let_def)

lemma decodeFrameObject_frame:
  "decodeFrameObject e codec src l t w h s = Inr s' \<Longrightarrow> frame s' = frame s"
  by (auto simp: decodeFrameObject_def decodeInto_def Let_def split: if_splits)

lemma handleNewPalette_frame:
  "handleNewPalette n b s = Inr (b', s') \<Longrightarrow> frame s' = frame s"
  by (auto simp: handleNewPalette_def bindE_eq_Inr split: if_splits)

lemma handleDeltaPalette_frame:
  "handleDeltaPalette n b s = Inr (b', s') \<Longrightarrow> frame s' = frame s"
  by (auto simp: handleDeltaPalette_def bindE_eq_Inr split: if_splits)

lemma handleStore_frame:
  "handleStore n b s = Inr (b', s') \<Longrightarrow> frame s' = frame s"
  by (auto simp: handleStore_def split: if_splits)

lemma handleFetch_frame:
  "handleFetch n b s = Inr (b', s') \<Longrightarrow> frame s' = frame s"
  by (auto simp: handleFetch_def split: if_splits option.splits)

lemma handleFrameObject_frame:
  "handleFrameObject e n b s = Inr (b', s') \<Longrightarrow> frame s' = frame s"
  by (auto simp: handleFrameObject_def bindE_eq_Inr split: if_splits dest: decodeFrameObject_frame)

lemma handleZlibFrameObject_frame:
  "handleZlibFrameObject e n b s = Inr (b', s') \<Longrightarrow> frame s' = frame s"
  by (auto simp: handleZlibFrameObject_def bindE_eq_Inr split: if_splits option.splits
      dest: decodeFrameObject_frame)

lemma handleSoundBuffer_frame:
  "handleSoundBuffer tr i m f v p b n s = Inr (b', s') \<Longrightarrow> frame s' = frame s"
  by (auto simp: handleSoundBuffer_def Let_def bindE_eq_Inr split: if_splits prod.splits)

lemma handleSoundFrame_frame:
  "handleSoundFrame n b s = Inr (b', s') \<Longrightarrow> frame s' = frame s"
  by (auto simp: handleSoundFrame_def bindE_eq_Inr dest: handleSoundBuffer_frame)

lemma handleTextResource_frame:
  "handleTextResource e ty n b s = Inr (b', s') \<Longrightarrow> frame s' = frame s"
  by (auto simp: handleTextResource_def Let_def bindE_eq_Inr split: if_splits option.splits)

lemma handleIACT_DIG_frame:
  assumes "handleIACT_DIG e n u i nb b s = Inr (b', s')"
  shows "frame s' = frame s"
proof (cases "readBytes (n - 18) b")
  case (Inl x)
  then show ?thesis using assms by (simp add: handleIACT_DIG_def)
next
  case (Inr r)
  obtain d b1 where r: "r = (d, b1)" by (cases r)
  show ?thesis
  proof (cases "iactBuf e u")
    case (Inl x)
    then show ?thesis using assms Inr r by (simp add: handleIACT_DIG_def)
  next
    case q: (Inr q)
    obtain bufId vol where qq: "q = (bufId, vol)" by (cases q)
    show ?thesis
    proof (cases "i \<noteq> 0 \<and> iactTable s ! nat bufId - i \<noteq> -1")
      case True
      then show ?thesis using assms Inr r q qq by (simp add: handleIACT_DIG_def)
    next
      case False
      show ?thesis
      proof (cases "i \<noteq> 0")
        case True
        then show ?thesis using assms Inr r q qq False
          by (auto simp: handleIACT_DIG_def Let_def split: if_splits)
      next
        case i0: False
        then show ?thesis using assms Inr r q qq
          by (auto simp: handleIACT_DIG_def Let_def split: if_splits)
      qed
    qed
  qed
qed

lemma procSKIP_frame:
  "insaneKeepsFrame e \<Longrightarrow> procSKIP e n b s = Inr (b', s') \<Longrightarrow> frame s' = frame s"
  unfolding insaneKeepsFrame_def by blast

lemma procIACT_frame:
  "insaneKeepsFrame e \<Longrightarrow> procIACT e c f u i b s = Inr (b', s') \<Longrightarrow> frame s' = frame s"
  unfolding insaneKeepsFrame_def by blast

lemma handleIACT_frame:
  "insaneKeepsFrame e \<Longrightarrow> handleIACT e n b s = Inr (b', s') \<Longrightarrow> frame s' = frame s"
  by (auto simp: handleIACT_def bindE_eq_Inr split: if_splits
      dest: handleIACT_DIG_frame procIACT_frame)

lemma dispatchSubChunk_frame:
  "insaneKeepsFrame e \<Longrightarrow> dispatchSubChunk e ty n b s = Inr (b', s') \<Longrightarrow> frame s' = frame s"
  unfolding dispatchSubChunk_def
  by (auto split: if_splits
      dest: handleNewPalette_frame handleFrameObject_frame handleZlibFrameObject_frame
        handleSoundFrame_frame handleTextResource_frame handleDeltaPalette_frame
        handleIACT_frame handleStore_frame handleFetch_frame procSKIP_frame)

lemma handleSubChunk_frame:
  "insaneKeepsFrame e \<Longrightarrow> handleSubChunk e fs b s = Inr (fs', b', s') \<Longrightarrow> frame s' = frame s"
  by (auto simp: handleSubChunk_def Let_def bindE_eq_Inr split: if_splits
      dest: dispatchSubChunk_frame)

lemma handleFrameLoop_frame:
  "insaneKeepsFrame e \<Longrightarrow> handleFrameLoop e fuel fs b s = Inr (b', s') \<Longrightarrow> frame s' = frame s"
proof (induction fuel arbitrary: fs b s)
  case 0
  then show ?case by (simp split: if_splits)
next
  case (Suc n)
  show ?case
  proof (cases "fs > 0")
    case False
    then show ?thesis using Suc.prems(2) by simp
  next
    case True
    then obtain fs1 b1 s1 where
      st: "handleSubChunk e fs b s = Inr (fs1, b1, s1)" and
      lp: "handleFrameLoop e n fs1 b1 s1 = Inr (b', s')"
      using Suc.prems(2) by (auto simp: bindE_eq_Inr)
    show ?thesis
      using handleSubChunk_frame [OF Suc.prems(1) st] Suc.IH [OF Suc.prems(1) lp] by simp
  qed
qed

text \<open>A run that returns does not depend on the fuel: with more fuel it returns the same.\<close>

lemma handleFrameLoop_more_fuel:
  "handleFrameLoop e n fs b s = Inr r \<Longrightarrow> handleFrameLoop e (n + k) fs b s = Inr r"
proof (induction n arbitrary: fs b s)
  case 0
  then show ?case by (cases k) (simp_all split: if_splits)
next
  case (Suc n)
  show ?case
  proof (cases "fs > 0")
    case False
    then show ?thesis using Suc.prems by simp
  next
    case True
    then obtain fs1 b1 s1 where
      st: "handleSubChunk e fs b s = Inr (fs1, b1, s1)" and
      lp: "handleFrameLoop e n fs1 b1 s1 = Inr r"
      using Suc.prems by (auto simp: bindE_eq_Inr)
    show ?thesis using True st Suc.IH [OF lp] by simp
  qed
qed

lemma handleFrame_more_fuel:
  "handleFrame e n fs b s = Inr r \<Longrightarrow> handleFrame e (n + k) fs b s = Inr r"
proof -
  assume a: "handleFrame e n fs b s = Inr r"
  let ?s0 = "s\<lparr>skipNext := False\<rparr>"
  from a obtain s1 b2 s2 where
    pre: "(if insanity ?s0 then procPreRendering e ?s0 else Inr ?s0) = Inr s1" and
    lp: "handleFrameLoop e n fs b s1 = Inr (b2, s2)"
    unfolding handleFrame_def Let_def by (auto simp: bindE_eq_Inr)
  have lp': "handleFrameLoop e (n + k) fs b s1 = Inr (b2, s2)"
    using lp by (rule handleFrameLoop_more_fuel)
  show ?thesis using a pre lp lp' by (simp add: handleFrame_def Let_def)
qed

text \<open>
  Claim C7.  After the sub-chunks of a \<^verbatim>\<open>Frame\<close> chunk are consumed, the frame counter
  is incremented once, whatever the number of image sub-chunks, and with a valid frame
  size (\<^verbatim>\<open>_width\<close> and \<^verbatim>\<open>_height\<close> not zero) the frame is handed to the display
  (\<^verbatim>\<open>updateScreen()\<close> sets \<^verbatim>\<open>_updateNeeded\<close>).  The overlay subsystem is assumed to
  leave the frame counter alone.
\<close>
theorem handleFrame_once:
  assumes "insaneKeepsFrame e" and "handleFrame e fuel frameSize b s = Inr (b', s')"
  shows "frame s' = frame s + 1 \<and> (width s' \<noteq> 0 \<and> height s' \<noteq> 0 \<longrightarrow> updateNeeded s')"
proof -
  let ?s0 = "s\<lparr>skipNext := False\<rparr>"
  let ?upd = "\<lambda>s3. (if width s3 \<noteq> 0 \<and> height s3 \<noteq> 0 then updateScreen s3 else s3)"
  from assms(2) obtain s1 b2 s2 s3 where
    pre: "(if insanity ?s0 then procPreRendering e ?s0 else Inr ?s0) = Inr s1" and
    lp: "handleFrameLoop e fuel frameSize b s1 = Inr (b2, s2)" and
    post: "(if insanity s2 then procPostRendering e s2 else Inr s2) = Inr s3" and
    fin: "s' = (?upd s3)\<lparr>smixer := mixerHandleFrame e (smixer (?upd s3)),
                          frame := frame (?upd s3) + 1\<rparr>"
    unfolding handleFrame_def Let_def by (auto simp: bindE_eq_Inr)
  have f1: "frame s1 = frame s"
    using pre assms(1) unfolding insaneKeepsFrame_def by (cases "insanity ?s0") auto
  have f2: "frame s2 = frame s1" using handleFrameLoop_frame [OF assms(1) lp] .
  have f3: "frame s3 = frame s2"
    using post assms(1) unfolding insaneKeepsFrame_def by (cases "insanity s2") auto
  show ?thesis using f1 f2 f3 unfolding fin updateScreen_def by simp
qed

lemma twoImages_run:
  "map_sum id (\<lambda>r. (s_pos (fst r), frame (snd r), width (snd r), height (snd r), updateNeeded (snd r)))
     (handleFrame idleEnv (Suc (Suc 0)) 44 twoImages newPlayer) = Inr (44, 1, 640, 480, True)"
  by (simp add: handleFrame_def handleSubChunk_def dispatchSubChunk_def handleFrameObject_def
      decodeFrameObject_def decodeInto_def storeFrameStep_def setDst_def getDst_def
      readUint32BE_def readUint16LE_def readBytes_def le16_def be32_def avail_def byteAt_def
      skip_def seek_def pos_def MKTAG_def updateScreen_def Let_def
      twoImages_def fobj_def newPlayer_def idleEnv_def)

lemma insaneKeepsFrame_idleEnv: "insaneKeepsFrame idleEnv"
  by (simp add: insaneKeepsFrame_def idleEnv_def)

theorem handleFrame_once_witness:
  "insaneKeepsFrame idleEnv \<and>
   (\<exists>b' s'. handleFrame idleEnv (Suc (Suc 0)) 44 twoImages newPlayer = Inr (b', s') \<and>
      frame s' = frame newPlayer + 1 \<and> frame s' = 1 \<and> width s' = 640 \<and> height s' = 480 \<and>
      updateNeeded s')"
proof -
  obtain b' s' where r: "handleFrame idleEnv (Suc (Suc 0)) 44 twoImages newPlayer = Inr (b', s')"
    using twoImages_run by (cases "handleFrame idleEnv (Suc (Suc 0)) 44 twoImages newPlayer") auto
  have v: "frame s' = 1" "width s' = 640" "height s' = 480"
    using twoImages_run r by simp_all
  have "frame s' = frame newPlayer + 1 \<and> (width s' \<noteq> 0 \<and> height s' \<noteq> 0 \<longrightarrow> updateNeeded s')"
    using handleFrame_once [OF insaneKeepsFrame_idleEnv r] .
  then show ?thesis using r v insaneKeepsFrame_idleEnv by auto
qed

lemma handleSubChunk_cursor:
  assumes "handleSubChunk e frameSize b s = Inr (frameSize', b', s')"
  shows "s_pos b' = s_pos b + 8 + chunkSize b + (if odd (chunkSize b) then 1 else 0) \<and>
         frameSize' = frameSize - (s_pos b' - s_pos b)"
  using assms
  by (auto simp: handleSubChunk_def Let_def bindE_eq_Inr readUint32BE_def chunkSize_def
      seek_def skip_def pos_def byteAt_def and_one_eq algebra_simps split: if_splits)

subsection \<open>Top-level chunks\<close>

lemma parseNextFrame_cursor:
  assumes "parseNextFrame e fuel now s = Inr s'" and "seekPos s < 0" and "base s = Some b"
    and "\<not> endOfFile s'"
  shows "\<exists>b'. base s' = Some b' \<and> s_pos b' = s_pos b + 8 + chunkSize b"
  using assms
  by (auto simp: parseNextFrame_def Let_def bindE_eq_Inr readUint32BE_def chunkSize_def
      seek_def skip_def pos_def byteAt_def algebra_simps split: if_splits)

text \<open>
  Claim C1.  After a chunk is processed the cursor is at \<open>payloadStart + size\<close>, plus one
  pad byte when the size is odd, whatever the handler read.  For the sub-chunks of a frame
  this holds (\<open>handleSubChunk_cursor\<close>).  \<^verbatim>\<open>parseNextFrame\<close> seeks to
  \<open>payloadStart + size\<close> and never consumes the pad byte (\<open>parseNextFrame_cursor\<close>): on a
  file whose header chunk declares 775 bytes the cursor is left at 783, not 784, and the
  next read takes the pad byte for the start of a tag and ends in \<^verbatim>\<open>error\<close>.
\<close>
theorem parseNextFrame_odd_size:
  "base oddHeader = Some oddFile \<and> s_pos oddFile = 0 \<and> chunkSize oddFile = 775 \<and>
   map_sum id (map_option s_pos \<circ> base) (parseNextFrame idleEnv 0 0 oddHeader) = Inr (Some 783) \<and>
   bindE (parseNextFrame idleEnv 0 0 oddHeader) (parseNextFrame idleEnv 0 0)
     = Inl (ErrorCall ''Unknown Chunk found'')"
  by (simp add: parseNextFrame_def handleAnimHeader_def readPalette_def setDirtyColors_def
      readUint32BE_def readUint16LE_def readBytes_def le16_def be32_def avail_def byteAt_def
      skip_def seek_def pos_def MKTAG_def Let_def nth_append chunkSize_def
      oddHeader_def oddFile_def frme_def newPlayer_def idleEnv_def)

theorem parseNextFrame_odd_size_witness:
  "map_sum id (map_option s_pos \<circ> base) (parseNextFrame idleEnv 0 0 oddHeader)
     \<noteq> Inr (Some (s_pos oddFile + 8 + chunkSize oddFile + 1))"
  using parseNextFrame_odd_size by simp

subsection \<open>The play loop\<close>




lemma showFrame_blit:
  "showFrame sf s = (bl, s') \<Longrightarrow>
     (bl \<noteq> None \<longleftrightarrow> updateNeeded s \<and> \<not> sf) \<and> width s' = width s \<and> height s' = height s \<and>
     vm s' = vm s \<and> dst s' = dst s \<and>
     (\<forall>d p w h. bl = Some (d, p, w, h) \<longrightarrow>
        d = dst s \<and> p = width s \<and> w = min (width s) (screenWidth (vm s)) \<and>
        h = min (height s) (screenHeight (vm s)))"
  by (auto simp: showFrame_def Let_def split: if_splits)

lemma endTick_keeps:
  "endTick s = (st, s') \<Longrightarrow>
     width s' = width s \<and> height s' = height s \<and> vm s' = vm s \<and> dst s' = dst s"
  by (auto simp: endTick_def split: if_splits)

lemma play_tick_cases:
  assumes "play_tick e fuel t s k = Inr (s', k', out)"
  obtains sf0 s1 po sf1 s3 bl s4 where
    "decodeDue e fuel t s = Inr (sf0, s1)"
    "flushPalette sf0 (hostEvents e s1) = (po, sf1, s3)"
    "countSkip sf1 k = (out_skip out, k')"
    "showFrame (out_skip out) s3 = (bl, s4)"
    "endTick s4 = (out_break out, s')"
    "out_palette out = po" "out_blit out = bl" "out_pending out = updateNeeded s3"
    "out_dirty out = (palDirtyMin (hostEvents e s1), palDirtyMax (hostEvents e s1))"
proof -
  from assms obtain sf0 s1 where d: "decodeDue e fuel t s = Inr (sf0, s1)"
    by (auto simp: play_tick_def bindE_eq_Inr)
  obtain po sf1 s3 where f: "flushPalette sf0 (hostEvents e s1) = (po, sf1, s3)"
    by (metis prod_cases3)
  obtain sf2 k2 where c: "countSkip sf1 k = (sf2, k2)" by (metis surj_pair)
  obtain bl s4 where sh: "showFrame sf2 s3 = (bl, s4)" by (metis surj_pair)
  obtain st s5 where en: "endTick s4 = (st, s5)" by (metis surj_pair)
  from assms d f c sh en have
    "s' = s5" "k' = k2"
    "out = \<lparr>out_dirty = (palDirtyMin (hostEvents e s1), palDirtyMax (hostEvents e s1)),
            out_palette = po, out_skip = sf2, out_pending = updateNeeded s3,
            out_blit = bl, out_break = st\<rparr>"
    by (simp_all add: play_tick_def Let_def)
  then show thesis using that [of sf0 s1 po sf1 s3 bl s4] d f c sh en by simp
qed



lemma play_tick_blit:
  assumes "play_tick e fuel t s k = Inr (s', k', out)"
    and "out_blit out = Some (d, pitch, w, h)"
  shows "w = min (width s') (screenWidth (vm s')) \<and> h = min (height s') (screenHeight (vm s')) \<and>
         w \<le> screenWidth (vm s') \<and> h \<le> screenHeight (vm s') \<and> pitch = width s' \<and> d = dst s'"
proof -
  from assms(1) obtain sf0 s1 po sf1 s3 bl s4 where
    sh: "showFrame (out_skip out) s3 = (bl, s4)" and
    en: "endTick s4 = (out_break out, s')" and
    o: "out_blit out = bl"
    by (rule play_tick_cases)
  show ?thesis
    using showFrame_blit [OF sh] endTick_keeps [OF en] o assms(2)
    by auto
qed





lemmas run_simps = play_tick_def decodeDue_def elapsedTime_def frameDue_def tdiv_def
  timerCallback_def parseNextFrame_def handleFrame_def hostEvents_def flushPalette_def
  countSkip_def showFrame_def endTick_def updateScreen_def readUint32BE_def avail_def
  byteAt_def be32_def skip_def seek_def pos_def MKTAG_def Let_def mixerStop_def
  newPlayer_def idleEnv_def



text \<open>
  Claim C9.  On every display push of the play loop the rectangle copied to the screen has
  width \<open>min (_width, screenWidth)\<close> and height \<open>min (_height, screenHeight)\<close>, so it
  never exceeds the screen, also when the current frame is the 384x242 special buffer.
\<close>
theorem blit_within_screen:
  assumes "play_tick e fuel t s k = Inr (s', k', out)"
    and "out_blit out = Some (d, pitch, w, h)"
  shows "w = min (width s') (screenWidth (vm s')) \<and> h = min (height s') (screenHeight (vm s')) \<and>
         w \<le> screenWidth (vm s') \<and> h \<le> screenHeight (vm s')"
  using play_tick_blit [OF assms] by simp

theorem blit_within_screen_witness:
  "play_tick idleEnv 0 earlyTick wideFrame 0 =
     Inr (wideFrame\<lparr>updateNeeded := False\<rparr>, 0,
          \<lparr>out_dirty = (256, -1), out_palette = None, out_skip = False, out_pending = True,
           out_blit = Some (Special, 384, 320, 200), out_break = False\<rparr>) \<and>
   (320::int) = min (width (wideFrame\<lparr>updateNeeded := False\<rparr>))
                    (screenWidth (vm (wideFrame\<lparr>updateNeeded := False\<rparr>))) \<and>
   (200::int) \<le> screenHeight (vm (wideFrame\<lparr>updateNeeded := False\<rparr>))"
proof -
  have r: "play_tick idleEnv 0 earlyTick wideFrame 0 =
     Inr (wideFrame\<lparr>updateNeeded := False\<rparr>, 0,
          \<lparr>out_dirty = (256, -1), out_palette = None, out_skip = False, out_pending = True,
           out_blit = Some (Special, 384, 320, 200), out_break = False\<rparr>)"
    by (simp add: run_simps wideFrame_def earlyTick_def)
  have b: "out_blit \<lparr>out_dirty = (256, -1), out_palette = None, out_skip = False,
           out_pending = True, out_blit = Some (Special, 384, 320, 200), out_break = False\<rparr>
           = Some (Special, 384, 320, 200)" by simp
  show ?thesis using blit_within_screen [OF r b] r by simp
qed

end
